theory Spec2Isabelle
  imports Complex_Main
begin

section \<open>JavaScript numbers\<close>

text \<open>
  The values of the JavaScript Number type that the analysis can produce: a finite
  value, negative zero, the two infinities and NaN. \<open>Fin 0\<close> is the positive zero.
  Finite results are exact reals: the rounding and the overflow of binary64 are not
  part of these operators, the special values and the signs of zeros and infinities
  are. Rounding is added in the section on rounded arithmetic.
\<close>

datatype jsnum = Fin real | NegZero | PosInf | NegInf | NaN

fun isNeg :: "jsnum \<Rightarrow> bool" where
  "isNeg (Fin x) = (x < 0)"
| "isNeg NegZero = True"
| "isNeg PosInf = False"
| "isNeg NegInf = True"
| "isNeg NaN = False"

fun isZero :: "jsnum \<Rightarrow> bool" where
  "isZero (Fin x) = (x = 0)"
| "isZero NegZero = True"
| "isZero PosInf = False"
| "isZero NegInf = False"
| "isZero NaN = False"

fun isInf :: "jsnum \<Rightarrow> bool" where
  "isInf PosInf = True"
| "isInf NegInf = True"
| "isInf (Fin x) = False"
| "isInf NegZero = False"
| "isInf NaN = False"

fun isFinite :: "jsnum \<Rightarrow> bool" where
  "isFinite (Fin x) = True"
| "isFinite NegZero = True"
| "isFinite PosInf = False"
| "isFinite NegInf = False"
| "isFinite NaN = False"

fun val :: "jsnum \<Rightarrow> real" where
  "val (Fin x) = x"
| "val NegZero = 0"
| "val PosInf = 0"
| "val NegInf = 0"
| "val NaN = 0"

definition signedZero :: "bool \<Rightarrow> jsnum" where
  "signedZero negative = (if negative then NegZero else Fin 0)"

definition signedInf :: "bool \<Rightarrow> jsnum" where
  "signedInf negative = (if negative then NegInf else PosInf)"

text \<open>The operator \<open>/\<close>.\<close>

definition js_div :: "jsnum \<Rightarrow> jsnum \<Rightarrow> jsnum" where
  "js_div a b =
     (if a = NaN \<or> b = NaN then NaN
      else if isInf a then (if isInf b then NaN else signedInf (isNeg a \<noteq> isNeg b))
      else if isInf b then signedZero (isNeg a \<noteq> isNeg b)
      else if isZero b then (if isZero a then NaN else signedInf (isNeg a \<noteq> isNeg b))
      else if isZero a then signedZero (isNeg a \<noteq> isNeg b)
      else Fin (val a / val b))"

text \<open>The operator \<open>*\<close>.\<close>

definition js_mul :: "jsnum \<Rightarrow> jsnum \<Rightarrow> jsnum" where
  "js_mul a b =
     (if a = NaN \<or> b = NaN then NaN
      else if isInf a \<or> isInf b then
        (if isZero a \<or> isZero b then NaN else signedInf (isNeg a \<noteq> isNeg b))
      else if isZero a \<or> isZero b then signedZero (isNeg a \<noteq> isNeg b)
      else Fin (val a * val b))"

text \<open>The operator \<open>+\<close> on numbers.\<close>

definition js_add :: "jsnum \<Rightarrow> jsnum \<Rightarrow> jsnum" where
  "js_add a b =
     (if a = NaN \<or> b = NaN then NaN
      else if isInf a then (if isInf b \<and> a \<noteq> b then NaN else a)
      else if isInf b then b
      else if isZero a \<and> isZero b then signedZero (a = NegZero \<and> b = NegZero)
      else Fin (val a + val b))"

fun js_neg :: "jsnum \<Rightarrow> jsnum" where
  "js_neg (Fin x) = (if x = 0 then NegZero else Fin (- x))"
| "js_neg NegZero = Fin 0"
| "js_neg PosInf = NegInf"
| "js_neg NegInf = PosInf"
| "js_neg NaN = NaN"

text \<open>The binary operator \<open>-\<close>.\<close>

definition js_sub :: "jsnum \<Rightarrow> jsnum \<Rightarrow> jsnum" where
  "js_sub a b = js_add a (js_neg b)"

text \<open>\<open>Math.sqrt\<close>.\<close>

fun js_sqrt :: "jsnum \<Rightarrow> jsnum" where
  "js_sqrt (Fin x) = (if x < 0 then NaN else Fin (sqrt x))"
| "js_sqrt NegZero = NegZero"
| "js_sqrt PosInf = PosInf"
| "js_sqrt NegInf = NaN"
| "js_sqrt NaN = NaN"

text \<open>The operator \<open><\<close> on numbers.\<close>

fun js_lt :: "jsnum \<Rightarrow> jsnum \<Rightarrow> bool" where
  "js_lt NaN b = False"
| "js_lt a NaN = False"
| "js_lt PosInf b = False"
| "js_lt a NegInf = False"
| "js_lt NegInf b = True"
| "js_lt a PosInf = True"
| "js_lt a b = (val a < val b)"

section \<open>GeoJSON values and the result object\<close>

text \<open>An exception thrown by a collaborator.\<close>

datatype js_error = Error string | TypeError string

text \<open>The object stored under the key \<open>nearestNeighborAnalysis\<close> (index.js, 84-92).
  \<open>numberOfPoints\<close> is the length of an array, a natural number.\<close>

record analysisResult =
  units :: string
  arealUnits :: string
  observedMeanDistance :: jsnum
  expectedMeanDistance :: jsnum
  nearestNeighborIndex :: jsnum
  numberOfPoints :: nat
  zScore :: jsnum

text \<open>A value of a property bag: any value of the caller's, or the result object.\<close>

datatype 'v jsval = Value 'v | Analysis analysisResult

type_synonym 'v bag = "string \<rightharpoonup> 'v jsval"

text \<open>A Feature: its geometry (opaque to the analysis, of type \<open>'g\<close>) and its property
  bag, which GeoJSON allows to be null (\<open>None\<close>).\<close>

record ('g, 'v) feature =
  geometry :: 'g
  properties :: "'v bag option"

text \<open>What the caller passes as \<open>dataset\<close>: \<open>undefined\<close>, \<open>null\<close>, or a FeatureCollection,
  the ordered sequence of its features.\<close>

datatype ('g, 'v) geojson =
  Undefined | Null | FeatureCollection "('g, 'v) feature list"

text \<open>The \<open>options\<close> object; an absent member is \<open>None\<close>.\<close>

record ('g, 'v) options =
  opt_studyArea :: "('g, 'v) feature option"
  opt_units :: "string option"
  opt_properties :: "'v bag option"

section \<open>The collaborators\<close>

text \<open>
  The functions that index.js imports from the other packages (\<open>@turf/area\<close>,
  \<open>@turf/bbox\<close>, \<open>@turf/bbox-polygon\<close>, \<open>@turf/centroid\<close>, \<open>@turf/distance\<close>,
  \<open>@turf/nearest-point\<close>, \<open>featureEach\<close> of \<open>@turf/meta\<close>, \<open>convertArea\<close> of
  \<open>@turf/helpers\<close>) are parameters of the model. Each returns a value or throws.
  \<open>featureEach T d\<close> is the traversal of \<open>d\<close>: the features it passes to its callback, in
  order, and the exception it throws after them, if any.
\<close>

record ('g, 'v) turf =
  area :: "('g, 'v) feature \<Rightarrow> js_error + jsnum"
  bbox :: "('g, 'v) geojson \<Rightarrow> js_error + jsnum list"
  bboxPolygon :: "jsnum list \<Rightarrow> js_error + ('g, 'v) feature"
  centroid :: "('g, 'v) feature \<Rightarrow> js_error + ('g, 'v) feature"
  distance :: "('g, 'v) feature \<Rightarrow> ('g, 'v) feature \<Rightarrow> string \<Rightarrow> js_error + jsnum"
  nearestPoint :: "('g, 'v) feature \<Rightarrow> ('g, 'v) geojson \<Rightarrow> js_error + ('g, 'v) feature"
  featureEach :: "('g, 'v) geojson \<Rightarrow> ('g, 'v) feature list \<times> js_error option"
  convertArea :: "jsnum \<Rightarrow> string \<Rightarrow> string \<Rightarrow> js_error + jsnum"

text \<open>Modelled from the spec: \<open>featureCollection\<close> of \<open>@turf/helpers\<close> is not in the
  sources; by the data model of the specification a FeatureCollection is the ordered
  sequence of the features it is made of.\<close>

definition featureCollection :: "('g, 'v) feature list \<Rightarrow> ('g, 'v) geojson" where
  "featureCollection fs = FeatureCollection fs"

section \<open>nearestNeighborAnalysis (index.js, 64-95)\<close>

text \<open>A callback applied to the elements of an array in order; the first exception
  ends the traversal.\<close>

fun mapE :: "('a \<Rightarrow> 'e + 'b) \<Rightarrow> 'a list \<Rightarrow> 'e + 'b list" where
  "mapE f [] = Inr []"
| "mapE f (x # xs) =
     (case f x of
        Inl e \<Rightarrow> Inl e
      | Inr y \<Rightarrow> (case mapE f xs of Inl e \<Rightarrow> Inl e | Inr ys \<Rightarrow> Inr (y # ys)))"

text \<open>Line 66: \<open>options = options || {}\<close>.\<close>

definition resolveOptions :: "('g, 'v) options option \<Rightarrow> ('g, 'v) options" where
  "resolveOptions options =
     (case options of
        None \<Rightarrow> \<lparr>opt_studyArea = None, opt_units = None, opt_properties = None\<rparr>
      | Some opts \<Rightarrow> opts)"

text \<open>Line 67: \<open>options.studyArea || bboxPolygon(bbox(dataset))\<close>.\<close>

definition resolveStudyArea ::
  "('g, 'v) turf \<Rightarrow> ('g, 'v) geojson \<Rightarrow> ('g, 'v) options option \<Rightarrow> js_error + ('g, 'v) feature"
where
  "resolveStudyArea T dataset options =
     (case opt_studyArea (resolveOptions options) of
        Some studyArea \<Rightarrow> Inr studyArea
      | None \<Rightarrow> (case bbox T dataset of Inl e \<Rightarrow> Inl e | Inr box \<Rightarrow> bboxPolygon T box))"

text \<open>Line 68: \<open>options.properties || {}\<close>.\<close>

definition resolveProperties :: "('g, 'v) options option \<Rightarrow> 'v bag" where
  "resolveProperties options =
     (case opt_properties (resolveOptions options) of
        Some props \<Rightarrow> props
      | None \<Rightarrow> Map.empty)"

text \<open>Line 69: \<open>options.units || 'kilometers'\<close>; the empty string is falsy.\<close>

definition resolveUnits :: "('g, 'v) options option \<Rightarrow> string" where
  "resolveUnits options =
     (case opt_units (resolveOptions options) of
        Some u \<Rightarrow> (if u = [] then ''kilometers'' else u)
      | None \<Rightarrow> ''kilometers'')"

text \<open>Lines 70-73: the centroid of every feature that \<open>featureEach\<close> visits, pushed in
  order; an exception of \<open>centroid\<close> leaves the traversal at once.\<close>

definition collectFeatures ::
  "('g, 'v) turf \<Rightarrow> ('g, 'v) geojson \<Rightarrow> js_error + ('g, 'v) feature list"
where
  "collectFeatures T dataset =
     (case featureEach T dataset of
        (visited, thrown) \<Rightarrow>
          (case mapE (centroid T) visited of
             Inl e \<Rightarrow> Inl e
           | Inr features \<Rightarrow> (case thrown of Some e \<Rightarrow> Inl e | None \<Rightarrow> Inr features)))"

text \<open>Lines 76-78: \<open>features.filter(function (f, i) { return i !== index; })\<close>.\<close>

definition otherFeatures :: "'a list \<Rightarrow> nat \<Rightarrow> 'a list" where
  "otherFeatures features index =
     map snd (filter (\<lambda>(i, f). i \<noteq> index) (enumerate 0 features))"

text \<open>Lines 75-79: the callback of \<open>features.map\<close>, applied to an index and its feature.\<close>

definition nearestNeighborDistance ::
  "('g, 'v) turf \<Rightarrow> string \<Rightarrow> ('g, 'v) feature list \<Rightarrow> nat \<times> ('g, 'v) feature \<Rightarrow> js_error + jsnum"
where
  "nearestNeighborDistance T unit features = (\<lambda>(index, feature).
     (case nearestPoint T feature (featureCollection (otherFeatures features index)) of
        Inl e \<Rightarrow> Inl e
      | Inr nearest \<Rightarrow> distance T feature nearest unit))"

text \<open>Lines 75-80: the distances of all features in index order.\<close>

definition nearestNeighborDistances ::
  "('g, 'v) turf \<Rightarrow> string \<Rightarrow> ('g, 'v) feature list \<Rightarrow> js_error + jsnum list"
where
  "nearestNeighborDistances T unit features =
     mapE (nearestNeighborDistance T unit features) (enumerate 0 features)"

text \<open>Line 80: \<open>.reduce(function (sum, value) { return sum + value; }, 0) / n\<close>.\<close>

definition meanDistance :: "jsnum list \<Rightarrow> nat \<Rightarrow> jsnum" where
  "meanDistance distances n = js_div (foldl js_add (Fin 0) distances) (Fin (real n))"

text \<open>Line 81, after the collaborators have returned the converted area.\<close>

definition populationDensity :: "nat \<Rightarrow> jsnum \<Rightarrow> jsnum" where
  "populationDensity n convertedArea = js_div (Fin (real n)) convertedArea"

text \<open>Line 82.\<close>

definition expectedMean :: "jsnum \<Rightarrow> jsnum" where
  "expectedMean density = js_div (Fin 1) (js_mul (Fin 2) (js_sqrt density))"

text \<open>Line 83.\<close>

definition variance :: "nat \<Rightarrow> jsnum \<Rightarrow> jsnum" where
  "variance n density = js_div (Fin 0.26136) (js_sqrt (js_mul (Fin (real n)) density))"

text \<open>Lines 81-92: the result object. The squared marker is the character U+00B2.\<close>

definition analysis :: "string \<Rightarrow> nat \<Rightarrow> jsnum \<Rightarrow> jsnum \<Rightarrow> analysisResult" where
  "analysis unit n observed convertedArea =
     (let density = populationDensity n convertedArea;
          expected = expectedMean density;
          var = variance n density
      in \<lparr>units = unit,
          arealUnits = unit @ [CHR 0xB2],
          observedMeanDistance = observed,
          expectedMeanDistance = expected,
          nearestNeighborIndex = js_div observed expected,
          numberOfPoints = n,
          zScore = js_div (js_sub observed expected) var\<rparr>)"

text \<open>The whole function. Every exception of a collaborator leaves it (\<open>Inl\<close>); the
  function throws none of its own.\<close>

definition nearestNeighborAnalysis ::
  "('g, 'v) turf \<Rightarrow> ('g, 'v) geojson \<Rightarrow> ('g, 'v) options option \<Rightarrow> js_error + ('g, 'v) feature"
where
  "nearestNeighborAnalysis T dataset options =
     (case resolveStudyArea T dataset options of
        Inl e \<Rightarrow> Inl e
      | Inr studyArea \<Rightarrow>
     (case collectFeatures T dataset of
        Inl e \<Rightarrow> Inl e
      | Inr features \<Rightarrow>
     (case nearestNeighborDistances T (resolveUnits options) features of
        Inl e \<Rightarrow> Inl e
      | Inr distances \<Rightarrow>
     (case area T studyArea of
        Inl e \<Rightarrow> Inl e
      | Inr a \<Rightarrow>
     (case convertArea T a ''meters'' (resolveUnits options) of
        Inl e \<Rightarrow> Inl e
      | Inr convertedArea \<Rightarrow>
          Inr (studyArea\<lparr>properties :=
                 Some ((resolveProperties options)(''nearestNeighborAnalysis'' \<mapsto>
                   Analysis (analysis (resolveUnits options) (length features)
                     (meanDistance distances (length features)) convertedArea)))\<rparr>))))))"

text \<open>The result object that a returned feature carries, if it carries one.\<close>

definition analysisOf :: "('g, 'v) feature \<Rightarrow> analysisResult option" where
  "analysisOf f =
     (case properties f of
        None \<Rightarrow> None
      | Some props \<Rightarrow>
          (case props ''nearestNeighborAnalysis'' of
             Some (Analysis r) \<Rightarrow> Some r
           | Some (Value v) \<Rightarrow> None
           | None \<Rightarrow> None))"

section \<open>Rounded arithmetic\<close>

text \<open>
  The operators above compute exact results. In JavaScript the result of each of them
  and of \<open>Math.sqrt\<close> is rounded to binary64. The definitions of this section are those of
  the function again, with every arithmetic result passed through a rounding \<open>rnd\<close>: with
  the identity they are the definitions above, with \<open>binary64\<close> they have the arithmetic of
  the Number type.
\<close>

text \<open>The integer nearest to a real, the even one of two that are equally near.\<close>

definition nearestEven :: "real \<Rightarrow> int" where
  "nearestEven q =
     (let f = \<lfloor>q\<rfloor>; d = q - of_int f
      in if d < 1 / 2 then f else if 1 / 2 < d then f + 1 else if even f then f else f + 1)"

text \<open>The binary exponent of a nonzero real, not below that of the subnormal numbers, and
  the distance of neighbouring binary64 numbers at that exponent (53 significant bits).\<close>

definition exponent64 :: "real \<Rightarrow> int" where
  "exponent64 x = max \<lfloor>log 2 \<bar>x\<bar>\<rfloor> (- 1022)"

definition ulp64 :: "real \<Rightarrow> real" where
  "ulp64 x = 2 powi (exponent64 x - 52)"

text \<open>Rounding to the nearest multiple of that distance, ties to even.\<close>

definition round64 :: "real \<Rightarrow> real" where
  "round64 x = of_int (nearestEven (x / ulp64 x)) * ulp64 x"

text \<open>The binary64 number that an exact result is rounded to: beyond the largest finite
  number it is an infinity, and a nonzero result that rounds to zero keeps its sign.\<close>

definition binary64 :: "jsnum \<Rightarrow> jsnum" where
  "binary64 a =
     (case a of
        Fin x \<Rightarrow>
          if x = 0 then Fin 0
          else if 2 ^ 1024 \<le> \<bar>round64 x\<bar> then signedInf (x < 0)
          else if round64 x = 0 then signedZero (x < 0)
          else Fin (round64 x)
      | NegZero \<Rightarrow> NegZero
      | PosInf \<Rightarrow> PosInf
      | NegInf \<Rightarrow> NegInf
      | NaN \<Rightarrow> NaN)"

text \<open>The operator \<open><=\<close> on numbers.\<close>

fun js_le :: "jsnum \<Rightarrow> jsnum \<Rightarrow> bool" where
  "js_le NaN b = False"
| "js_le a NaN = False"
| "js_le a PosInf = True"
| "js_le NegInf b = True"
| "js_le PosInf b = False"
| "js_le a NegInf = False"
| "js_le a b = (val a \<le> val b)"

text \<open>Line 80.\<close>

definition meanDistanceR :: "(jsnum \<Rightarrow> jsnum) \<Rightarrow> jsnum list \<Rightarrow> nat \<Rightarrow> jsnum" where
  "meanDistanceR rnd distances n =
     rnd (js_div (foldl (\<lambda>sum value. rnd (js_add sum value)) (Fin 0) distances) (Fin (real n)))"

text \<open>Line 81.\<close>

definition populationDensityR :: "(jsnum \<Rightarrow> jsnum) \<Rightarrow> nat \<Rightarrow> jsnum \<Rightarrow> jsnum" where
  "populationDensityR rnd n convertedArea = rnd (js_div (Fin (real n)) convertedArea)"

text \<open>Line 82.\<close>

definition expectedMeanR :: "(jsnum \<Rightarrow> jsnum) \<Rightarrow> jsnum \<Rightarrow> jsnum" where
  "expectedMeanR rnd density = rnd (js_div (Fin 1) (rnd (js_mul (Fin 2) (rnd (js_sqrt density)))))"

text \<open>Line 83; the literal is rounded too.\<close>

definition varianceR :: "(jsnum \<Rightarrow> jsnum) \<Rightarrow> nat \<Rightarrow> jsnum \<Rightarrow> jsnum" where
  "varianceR rnd n density =
     rnd (js_div (rnd (Fin 0.26136)) (rnd (js_sqrt (rnd (js_mul (Fin (real n)) density)))))"

text \<open>Lines 81-92.\<close>

definition analysisR ::
  "(jsnum \<Rightarrow> jsnum) \<Rightarrow> string \<Rightarrow> nat \<Rightarrow> jsnum \<Rightarrow> jsnum \<Rightarrow> analysisResult" where
  "analysisR rnd unit n observed convertedArea =
     (let density = populationDensityR rnd n convertedArea;
          expected = expectedMeanR rnd density;
          var = varianceR rnd n density
      in \<lparr>units = unit,
          arealUnits = unit @ [CHR 0xB2],
          observedMeanDistance = observed,
          expectedMeanDistance = expected,
          nearestNeighborIndex = rnd (js_div observed expected),
          numberOfPoints = n,
          zScore = rnd (js_div (rnd (js_sub observed expected)) var)\<rparr>)"

text \<open>Lines 64-95.\<close>

definition nearestNeighborAnalysisR ::
  "(jsnum \<Rightarrow> jsnum) \<Rightarrow> ('g, 'v) turf \<Rightarrow> ('g, 'v) geojson \<Rightarrow> ('g, 'v) options option \<Rightarrow>
   js_error + ('g, 'v) feature"
where
  "nearestNeighborAnalysisR rnd T dataset options =
     (case resolveStudyArea T dataset options of
        Inl e \<Rightarrow> Inl e
      | Inr studyArea \<Rightarrow>
     (case collectFeatures T dataset of
        Inl e \<Rightarrow> Inl e
      | Inr features \<Rightarrow>
     (case nearestNeighborDistances T (resolveUnits options) features of
        Inl e \<Rightarrow> Inl e
      | Inr distances \<Rightarrow>
     (case area T studyArea of
        Inl e \<Rightarrow> Inl e
      | Inr a \<Rightarrow>
     (case convertArea T a ''meters'' (resolveUnits options) of
        Inl e \<Rightarrow> Inl e
      | Inr convertedArea \<Rightarrow>
          Inr (studyArea\<lparr>properties :=
                 Some ((resolveProperties options)(''nearestNeighborAnalysis'' \<mapsto>
                   Analysis (analysisR rnd (resolveUnits options) (length features)
                     (meanDistanceR rnd distances (length features)) convertedArea)))\<rparr>))))))"

section \<open>A planar instance of the collaborators\<close>

text \<open>
  Runs of the function are exhibited on a small instance of the collaborators in the
  plane: a geometry is a point or an axis-parallel rectangle, the distance is the
  taxicab distance, the nearest point is the first of the closest ones, areas are in
  square meters, and the traversal of \<open>null\<close> or \<open>undefined\<close> throws a TypeError.
\<close>

datatype geom = Point real real | Rect real real real real

fun corners :: "geom \<Rightarrow> (real \<times> real) list" where
  "corners (Point x y) = [(x, y)]"
| "corners (Rect w s e n) = [(w, s), (e, n)]"

definition planarBbox :: "(geom, 'v) geojson \<Rightarrow> js_error + jsnum list" where
  "planarBbox d =
     (case d of
        FeatureCollection fs \<Rightarrow>
          (case concat (map (\<lambda>f. corners (geometry f)) fs) of
             [] \<Rightarrow> Inr [PosInf, PosInf, NegInf, NegInf]
           | c # cs \<Rightarrow>
               Inr [Fin (foldl min (fst c) (map fst cs)), Fin (foldl min (snd c) (map snd cs)),
                    Fin (foldl max (fst c) (map fst cs)), Fin (foldl max (snd c) (map snd cs))])
      | Undefined \<Rightarrow> Inl (TypeError ''Cannot read properties of undefined'')
      | Null \<Rightarrow> Inr [PosInf, PosInf, NegInf, NegInf])"

definition planarBboxPolygon :: "jsnum list \<Rightarrow> js_error + (geom, 'v) feature" where
  "planarBboxPolygon box =
     (case box of
        [Fin w, Fin s, Fin e, Fin n] \<Rightarrow> Inr \<lparr>geometry = Rect w s e n, properties = Some Map.empty\<rparr>
      | _ \<Rightarrow> Inl (Error ''bbox is not finite''))"

definition planarArea :: "(geom, 'v) feature \<Rightarrow> js_error + jsnum" where
  "planarArea f =
     (case geometry f of
        Rect w s e n \<Rightarrow> Inr (Fin (\<bar>e - w\<bar> * \<bar>n - s\<bar>))
      | Point x y \<Rightarrow> Inr (Fin 0))"

definition planarCentroid :: "(geom, 'v) feature \<Rightarrow> js_error + (geom, 'v) feature" where
  "planarCentroid f =
     Inr \<lparr>geometry = (case geometry f of
                        Point x y \<Rightarrow> Point x y
                      | Rect w s e n \<Rightarrow> Point ((w + e) / 2) ((s + n) / 2)),
          properties = Some Map.empty\<rparr>"

fun taxicab :: "geom \<Rightarrow> geom \<Rightarrow> real option" where
  "taxicab (Point x1 y1) (Point x2 y2) = Some (\<bar>x1 - x2\<bar> + \<bar>y1 - y2\<bar>)"
| "taxicab a b = None"

definition planarDistance ::
  "(geom, 'v) feature \<Rightarrow> (geom, 'v) feature \<Rightarrow> string \<Rightarrow> js_error + jsnum" where
  "planarDistance a b unit =
     (case taxicab (geometry a) (geometry b) of
        None \<Rightarrow> Inl (Error ''coord must be a Point'')
      | Some d \<Rightarrow>
          if unit = ''meters'' then Inr (Fin d)
          else if unit = ''kilometers'' then Inr (Fin (d / 1000))
          else Inl (Error ''units is invalid''))"

fun closest :: "geom \<Rightarrow> (geom, 'v) feature list \<Rightarrow> ((geom, 'v) feature \<times> real) option" where
  "closest t [] = None"
| "closest t (p # ps) =
     (case taxicab t (geometry p) of
        None \<Rightarrow> closest t ps
      | Some d \<Rightarrow>
          (case closest t ps of
             None \<Rightarrow> Some (p, d)
           | Some (q, dq) \<Rightarrow> if d \<le> dq then Some (p, d) else Some (q, dq)))"

definition planarNearestPoint ::
  "(geom, 'v) feature \<Rightarrow> (geom, 'v) geojson \<Rightarrow> js_error + (geom, 'v) feature" where
  "planarNearestPoint target points =
     (case points of
        FeatureCollection fs \<Rightarrow>
          (case closest (geometry target) fs of
             None \<Rightarrow> Inl (Error ''geojson is required'')
           | Some (p, d) \<Rightarrow> Inr p)
      | Undefined \<Rightarrow> Inl (Error ''points is required'')
      | Null \<Rightarrow> Inl (Error ''points is required''))"

definition planarFeatureEach ::
  "(geom, 'v) geojson \<Rightarrow> (geom, 'v) feature list \<times> js_error option" where
  "planarFeatureEach d =
     (case d of
        FeatureCollection fs \<Rightarrow> (fs, None)
      | Undefined \<Rightarrow> ([], Some (TypeError ''Cannot read properties of undefined''))
      | Null \<Rightarrow> ([], Some (TypeError ''Cannot read properties of null'')))"

definition planarConvertArea :: "jsnum \<Rightarrow> string \<Rightarrow> string \<Rightarrow> js_error + jsnum" where
  "planarConvertArea a original final =
     (if a = NaN \<or> (isNeg a \<and> \<not> isZero a) then Inl (Error ''area must be a positive number'')
      else if original \<noteq> ''meters'' then Inl (Error ''invalid original units'')
      else if final = ''meters'' then Inr a
      else if final = ''kilometers'' then Inr (js_mul a (Fin 0.000001))
      else Inl (Error ''invalid final units''))"

definition planar :: "(geom, string) turf" where
  "planar =
     \<lparr>area = planarArea, bbox = planarBbox, bboxPolygon = planarBboxPolygon,
      centroid = planarCentroid, distance = planarDistance,
      nearestPoint = planarNearestPoint, featureEach = planarFeatureEach,
      convertArea = planarConvertArea\<rparr>"

text \<open>The inputs of the exhibited runs: points, among them the four corners of a square
  of side 1, study areas of side 1 and 2, and options that measure in meters.\<close>

definition pt :: "real \<Rightarrow> real \<Rightarrow> (geom, string) feature" where
  "pt x y = \<lparr>geometry = Point x y, properties = Some Map.empty\<rparr>"

definition square :: "(geom, string) geojson" where
  "square = FeatureCollection [pt 0 0, pt 1 0, pt 1 1, pt 0 1]"

definition inMeters :: "(geom, string) options" where
  "inMeters = \<lparr>opt_studyArea = None, opt_units = Some ''meters'', opt_properties = None\<rparr>"

definition unitSquare :: "(geom, string) feature" where
  "unitSquare = \<lparr>geometry = Rect 0 0 1 1, properties = Some [''name'' \<mapsto> Value ''downtown'']\<rparr>"

definition wideSquare :: "(geom, string) feature" where
  "wideSquare = \<lparr>geometry = Rect 0 0 2 2, properties = Some Map.empty\<rparr>"

definition studying :: "(geom, string) feature \<Rightarrow> (geom, string) options" where
  "studying studyArea = \<lparr>opt_studyArea = Some studyArea, opt_units = Some ''meters'', opt_properties = None\<rparr>"

definition squareAnalysis :: analysisResult where
  "squareAnalysis =
     \<lparr>units = ''meters'', arealUnits = ''meters'' @ [CHR 0xB2],
      observedMeanDistance = Fin 1, expectedMeanDistance = Fin (1 / 4),
      nearestNeighborIndex = Fin 4, numberOfPoints = 4, zScore = Fin (12500 / 1089)\<rparr>"

definition squareOutcome :: "(geom, string) feature" where
  "squareOutcome =
     \<lparr>geometry = Rect 0 0 1 1,
      properties = Some [''nearestNeighborAnalysis'' \<mapsto> Analysis squareAnalysis]\<rparr>"

definition staleBag :: "string bag" where
  "staleBag = Map.empty(''nearestNeighborAnalysis'' \<mapsto> Value ''stale'', ''name'' \<mapsto> Value ''downtown'')"

definition staleSquare :: "(geom, string) feature" where
  "staleSquare = \<lparr>geometry = Rect 0 0 1 1, properties = Some staleBag\<rparr>"

definition fooBar :: "string bag" where
  "fooBar = Map.empty(''foo'' \<mapsto> Value ''bar'')"

definition labelled :: "(geom, string) feature \<Rightarrow> (geom, string) options" where
  "labelled studyArea =
     \<lparr>opt_studyArea = Some studyArea, opt_units = Some ''meters'', opt_properties = Some fooBar\<rparr>"

text \<open>Two study areas whose areas, 7 and the next binary64 number above 7, differ.\<close>

definition sevenWide :: "(geom, string) feature" where
  "sevenWide = \<lparr>geometry = Rect 0 0 1 7, properties = Some Map.empty\<rparr>"

definition sevenWider :: "(geom, string) feature" where
  "sevenWider = \<lparr>geometry = Rect 0 0 1 (7 + 1 / 2 ^ 50), properties = Some Map.empty\<rparr>"

text \<open>A square and the point at its centre.\<close>

definition mixed :: "(geom, string) geojson" where
  "mixed = FeatureCollection [wideSquare, pt 1 1]"

definition repeated :: "(geom, string) geojson" where
  "repeated = FeatureCollection [pt 0 0, pt 1 0, pt 0 0]"

definition onePoint :: "(geom, string) geojson" where
  "onePoint = FeatureCollection [pt 0 0]"

definition noPoints :: "(geom, string) geojson" where
  "noPoints = FeatureCollection []"

text \<open>The result objects of the runs on no point and on one point.\<close>

definition emptyAnalysis :: analysisResult where
  "emptyAnalysis =
     \<lparr>units = ''meters'', arealUnits = ''meters'' @ [CHR 0xB2],
      observedMeanDistance = NaN, expectedMeanDistance = PosInf,
      nearestNeighborIndex = NaN, numberOfPoints = 0, zScore = NaN\<rparr>"

definition singleAnalysis :: analysisResult where
  "singleAnalysis =
     \<lparr>units = ''meters'', arealUnits = ''meters'' @ [CHR 0xB2],
      observedMeanDistance = Fin 0, expectedMeanDistance = Fin (1 / 2),
      nearestNeighborIndex = Fin 0, numberOfPoints = 1, zScore = Fin (- (6250 / 3267))\<rparr>"

text \<open>A variant of the instance: a nearest-point search that answers the target
  itself, also over an empty collection.\<close>

definition selfNearest :: "(geom, string) turf" where
  "selfNearest = planar\<lparr>nearestPoint := (\<lambda>target points. Inr target)\<rparr>"

section \<open>Auxiliary facts\<close>

lemma mapE_length: "mapE f xs = Inr ys \<Longrightarrow> length ys = length xs"
  by (induction xs arbitrary: ys) (auto split: sum.splits)

lemma mapE_nth: "mapE f xs = Inr ys \<Longrightarrow> i < length xs \<Longrightarrow> f (xs ! i) = Inr (ys ! i)"
proof (induction xs arbitrary: ys i)
  case Nil
  then show ?case by simp
next
  case (Cons x xs)
  then show ?case
    by (cases i) (auto split: sum.splits)
qed

lemma collectFeatures_length:
  "collectFeatures T dataset = Inr features \<Longrightarrow> length features = length (fst (featureEach T dataset))"
  by (auto simp: collectFeatures_def split: prod.splits sum.splits option.splits dest: mapE_length)

lemma nearestNeighborAnalysis_InrE:
  assumes "nearestNeighborAnalysis T dataset options = Inr r"
  obtains studyArea features distances a convertedArea where
    "resolveStudyArea T dataset options = Inr studyArea"
    "collectFeatures T dataset = Inr features"
    "nearestNeighborDistances T (resolveUnits options) features = Inr distances"
    "area T studyArea = Inr a"
    "convertArea T a ''meters'' (resolveUnits options) = Inr convertedArea"
    "r = studyArea\<lparr>properties :=
           Some ((resolveProperties options)(''nearestNeighborAnalysis'' \<mapsto>
             Analysis (analysis (resolveUnits options) (length features)
               (meanDistance distances (length features)) convertedArea)))\<rparr>"
  using assms unfolding nearestNeighborAnalysis_def
  by (auto split: sum.splits)

lemma nearestNeighborAnalysis_InrI:
  assumes "resolveStudyArea T dataset options = Inr studyArea"
    and "collectFeatures T dataset = Inr features"
    and "nearestNeighborDistances T (resolveUnits options) features = Inr distances"
    and "area T studyArea = Inr a"
    and "convertArea T a ''meters'' (resolveUnits options) = Inr convertedArea"
  shows "nearestNeighborAnalysis T dataset options =
     Inr (studyArea\<lparr>properties :=
           Some ((resolveProperties options)(''nearestNeighborAnalysis'' \<mapsto>
             Analysis (analysis (resolveUnits options) (length features)
               (meanDistance distances (length features)) convertedArea)))\<rparr>)"
  using assms unfolding nearestNeighborAnalysis_def by simp

lemma analysisOf_update:
  "analysisOf (f\<lparr>properties := Some (props(''nearestNeighborAnalysis'' \<mapsto> Analysis res))\<rparr>) = Some res"
  by (simp add: analysisOf_def)

lemma analysis_fields:
  "units (analysis u n obs ca) = u"
  "arealUnits (analysis u n obs ca) = u @ [CHR 0xB2]"
  "observedMeanDistance (analysis u n obs ca) = obs"
  "expectedMeanDistance (analysis u n obs ca) = expectedMean (populationDensity n ca)"
  "nearestNeighborIndex (analysis u n obs ca) = js_div obs (expectedMean (populationDensity n ca))"
  "numberOfPoints (analysis u n obs ca) = n"
  "zScore (analysis u n obs ca) =
     js_div (js_sub obs (expectedMean (populationDensity n ca))) (variance n (populationDensity n ca))"
  by (simp_all add: analysis_def Let_def)



lemma populationDensity_positive:
  "0 < n \<Longrightarrow> 0 < c \<Longrightarrow> populationDensity n (Fin c) = Fin (real n / c)"
  by (simp add: populationDensity_def js_div_def)

lemma expectedMean_positive:
  "0 < d \<Longrightarrow> expectedMean (Fin d) = Fin (1 / (2 * sqrt d))"
  by (simp add: expectedMean_def js_div_def js_mul_def)


lemma expectedMean_empty_not_finite: "\<not> isFinite (expectedMean (populationDensity 0 convertedArea))"
proof (cases convertedArea)
  case (Fin c)
  then show ?thesis
    by (cases "c = 0"; cases "c < 0")
      (simp_all add: populationDensity_def expectedMean_def js_div_def js_mul_def signedZero_def signedInf_def)
qed (simp_all add: populationDensity_def expectedMean_def js_div_def js_mul_def signedZero_def signedInf_def)

lemma empty_fields:
  "observedMeanDistance (analysis unit 0 (meanDistance [] 0) convertedArea) = NaN"
  "nearestNeighborIndex (analysis unit 0 (meanDistance [] 0) convertedArea) = NaN"
  "zScore (analysis unit 0 (meanDistance [] 0) convertedArea) = NaN"
  by (simp_all add: analysis_fields meanDistance_def js_div_def js_sub_def js_add_def)

lemma filter_enumerate_above:
  "i < k \<Longrightarrow> map snd (filter (\<lambda>(j, f). j \<noteq> i) (enumerate k xs)) = xs"
  by (induction xs arbitrary: k) auto

lemma filter_enumerate_index:
  "map snd (filter (\<lambda>(j, f). j \<noteq> i + k) (enumerate k xs)) = take i xs @ drop (Suc i) xs"
proof (induction xs arbitrary: i k)
  case Nil
  then show ?case by simp
next
  case (Cons x xs)
  show ?case
  proof (cases i)
    case 0
    then show ?thesis
      by (simp add: filter_enumerate_above)
  next
    case (Suc i')
    with Cons.IH [of i' "Suc k"] show ?thesis
      by simp
  qed
qed

lemma otherFeatures_take_drop:
  "otherFeatures features index = take index features @ drop (Suc index) features"
  using filter_enumerate_index [of index 0 features] by (simp add: otherFeatures_def)

lemma others_nth:
  assumes "x \<in> set (take i xs @ drop (Suc i) xs)"
  shows "\<exists>j < length xs. j \<noteq> i \<and> xs ! j = x"
proof -
  from assms consider "x \<in> set (take i xs)" | "x \<in> set (drop (Suc i) xs)"
    by auto
  then show ?thesis
  proof cases
    case 1
    then obtain j where "j < length (take i xs)" "take i xs ! j = x"
      by (auto simp: in_set_conv_nth)
    then have "j < length xs" "j \<noteq> i" "xs ! j = x"
      by auto
    then show ?thesis by blast
  next
    case 2
    then obtain j where j: "j < length (drop (Suc i) xs)" "drop (Suc i) xs ! j = x"
      by (auto simp: in_set_conv_nth)
    then have "Suc i + j < length xs" "Suc i + j \<noteq> i" "xs ! (Suc i + j) = x"
      by auto
    then show ?thesis by blast
  qed
qed

lemma others_member:
  assumes "j < length xs" and "j \<noteq> i"
  shows "xs ! j \<in> set (take i xs @ drop (Suc i) xs)"
proof (cases "j < i")
  case True
  with assms have "j < length (take i xs)" "take i xs ! j = xs ! j"
    by simp_all
  then have "xs ! j \<in> set (take i xs)"
    by (metis nth_mem)
  then show ?thesis
    by simp
next
  case False
  with assms have k: "j - Suc i < length (drop (Suc i) xs)" "drop (Suc i) xs ! (j - Suc i) = xs ! j"
    by simp_all
  then have "xs ! j \<in> set (drop (Suc i) xs)"
    by (metis nth_mem)
  then show ?thesis
    by simp
qed

lemma others_length: "i < length xs \<Longrightarrow> length (take i xs @ drop (Suc i) xs) = length xs - 1"
  by simp

lemma nearestNeighborDistances_nth:
  assumes "nearestNeighborDistances T unit features = Inr distances" and "i < length features"
  shows "nearestNeighborDistance T unit features (i, features ! i) = Inr (distances ! i)"
  using mapE_nth [of "nearestNeighborDistance T unit features" "enumerate 0 features" distances i] assms
  by (simp add: nearestNeighborDistances_def nth_enumerate_eq)

lemma nearestNeighborDistances_length:
  "nearestNeighborDistances T unit features = Inr distances \<Longrightarrow> length distances = length features"
  by (auto simp: nearestNeighborDistances_def dest: mapE_length)

section \<open>Facts about rounding\<close>

lemma nearestEven_bounds:
  "real_of_int (nearestEven q) - 1 / 2 \<le> q" "q \<le> real_of_int (nearestEven q) + 1 / 2"
  unfolding nearestEven_def Let_def by (auto; linarith)+

lemma nearestEven_int: "nearestEven (of_int k) = k"
  by (simp add: nearestEven_def)

lemma nearestEven_eqI:
  assumes "real_of_int k - 1 / 2 < q" and "q < real_of_int k + 1 / 2"
  shows "nearestEven q = k"
proof -
  from assms nearestEven_bounds [of q]
  have "real_of_int (nearestEven q) < real_of_int k + 1" "real_of_int k < real_of_int (nearestEven q) + 1"
    by linarith+
  then have "nearestEven q < k + 1" "k < nearestEven q + 1"
    by linarith+
  then show ?thesis
    by simp
qed

lemma nearestEven_mono:
  assumes "q \<le> q'"
  shows "nearestEven q \<le> nearestEven q'"
proof (rule ccontr)
  assume "\<not> nearestEven q \<le> nearestEven q'"
  then have less: "nearestEven q' + 1 \<le> nearestEven q"
    by simp
  then have "real_of_int (nearestEven q') + 1 \<le> real_of_int (nearestEven q)"
    by linarith
  with assms nearestEven_bounds(1) [of q] nearestEven_bounds(2) [of q']
  have "q = q'"
    by linarith
  with less show False
    by simp
qed

lemma ulp64_pos: "0 < ulp64 x"
  by (simp add: ulp64_def)

lemma exponent64_above:
  assumes "0 < x"
  shows "x < 2 powi (exponent64 x + 1)"
proof -
  have "\<lfloor>log 2 x\<rfloor> = \<lfloor>log 2 x\<rfloor>" ..
  with assms have "x < 2 powr real_of_int (\<lfloor>log 2 x\<rfloor> + 1)"
    by (simp only: floor_log_eq_powr_iff [of x 2] of_int_add of_int_1)
  also have "2 powr real_of_int (\<lfloor>log 2 x\<rfloor> + 1) = 2 powi (\<lfloor>log 2 x\<rfloor> + 1)"
    by (rule powr_real_of_int') simp_all
  finally have "x < 2 powi (\<lfloor>log 2 x\<rfloor> + 1)" .
  also have "2 powi (\<lfloor>log 2 x\<rfloor> + 1) \<le> (2::real) powi (exponent64 x + 1)"
    using assms by (intro power_int_increasing) (simp_all add: exponent64_def)
  finally show ?thesis .
qed

lemma exponent64_below:
  assumes "0 < x" and "- 1022 < exponent64 x"
  shows "2 powi exponent64 x \<le> x"
proof -
  from assms have e: "exponent64 x = \<lfloor>log 2 x\<rfloor>"
    by (simp add: exponent64_def max_def split: if_splits)
  have "\<lfloor>log 2 x\<rfloor> = \<lfloor>log 2 x\<rfloor>" ..
  with assms(1) have "2 powr real_of_int \<lfloor>log 2 x\<rfloor> \<le> x"
    by (simp only: floor_log_eq_powr_iff [of x 2])
  then show ?thesis
    unfolding e by (simp add: powr_real_of_int')
qed

lemma exponent64_mono:
  assumes "0 < x" and "x \<le> y"
  shows "exponent64 x \<le> exponent64 y"
proof -
  from assms have "log 2 x \<le> log 2 y"
    by simp
  then have "\<lfloor>log 2 x\<rfloor> \<le> \<lfloor>log 2 y\<rfloor>"
    by (rule floor_mono)
  with assms show ?thesis
    by (simp add: exponent64_def)
qed

lemma round64_nonneg:
  assumes "0 \<le> x"
  shows "0 \<le> round64 x"
proof -
  from assms ulp64_pos [of x] have "real_of_int 0 \<le> x / ulp64 x"
    by simp
  then have "nearestEven (real_of_int 0) \<le> nearestEven (x / ulp64 x)"
    by (rule nearestEven_mono)
  then have "0 \<le> nearestEven (x / ulp64 x)"
    by (simp only: nearestEven_int)
  with ulp64_pos [of x] show ?thesis
    by (simp add: round64_def)
qed

lemma round64_above:
  assumes "0 < x"
  shows "round64 x \<le> 2 powi (exponent64 x + 1)"
proof -
  let ?u = "ulp64 x"
  have split: "(2::real) powi (exponent64 x + 1) = real_of_int (2 ^ 53) * ?u"
  proof -
    have "(2::real) powi (exponent64 x + 1) = 2 powi (53 + (exponent64 x - 52))"
      by (rule arg_cong [of _ _ "\<lambda>k. 2 powi k"]) simp
    also have "\<dots> = 2 powi 53 * 2 powi (exponent64 x - 52)"
      by (rule power_int_add) simp
    finally show ?thesis
      by (simp add: ulp64_def)
  qed
  from exponent64_above [OF assms] have "x / ?u \<le> real_of_int (2 ^ 53)"
    unfolding split using ulp64_pos [of x] by (simp add: field_simps)
  then have "nearestEven (x / ?u) \<le> nearestEven (real_of_int (2 ^ 53))"
    by (rule nearestEven_mono)
  then have "nearestEven (x / ?u) \<le> 2 ^ 53"
    by (simp only: nearestEven_int)
  then have "real_of_int (nearestEven (x / ?u)) \<le> real_of_int (2 ^ 53)"
    by linarith
  with ulp64_pos [of x] have "real_of_int (nearestEven (x / ?u)) * ?u \<le> real_of_int (2 ^ 53) * ?u"
    by (intro mult_right_mono) simp_all
  then show ?thesis
    unfolding split round64_def .
qed

lemma round64_below:
  assumes "0 < x" and "- 1022 < exponent64 x"
  shows "2 powi exponent64 x \<le> round64 x"
proof -
  let ?u = "ulp64 x"
  have split: "(2::real) powi exponent64 x = real_of_int (2 ^ 52) * ?u"
  proof -
    have "(2::real) powi exponent64 x = 2 powi (52 + (exponent64 x - 52))"
      by (rule arg_cong [of _ _ "\<lambda>k. 2 powi k"]) simp
    also have "\<dots> = 2 powi 52 * 2 powi (exponent64 x - 52)"
      by (rule power_int_add) simp
    finally show ?thesis
      by (simp add: ulp64_def)
  qed
  from exponent64_below [OF assms] have "real_of_int (2 ^ 52) \<le> x / ?u"
    unfolding split using ulp64_pos [of x] by (simp add: field_simps)
  then have "nearestEven (real_of_int (2 ^ 52)) \<le> nearestEven (x / ?u)"
    by (rule nearestEven_mono)
  then have "2 ^ 52 \<le> nearestEven (x / ?u)"
    by (simp only: nearestEven_int)
  then have "real_of_int (2 ^ 52) \<le> real_of_int (nearestEven (x / ?u))"
    by linarith
  with ulp64_pos [of x] have "real_of_int (2 ^ 52) * ?u \<le> real_of_int (nearestEven (x / ?u)) * ?u"
    by (intro mult_right_mono) simp_all
  then show ?thesis
    unfolding split round64_def .
qed

lemma round64_mono:
  assumes "0 < x" and "x \<le> y"
  shows "round64 x \<le> round64 y"
proof (cases "exponent64 x = exponent64 y")
  case True
  then have u: "ulp64 x = ulp64 y"
    by (simp add: ulp64_def)
  from assms ulp64_pos [of y] have "x / ulp64 y \<le> y / ulp64 y"
    by (simp add: divide_right_mono)
  then have "nearestEven (x / ulp64 y) \<le> nearestEven (y / ulp64 y)"
    by (rule nearestEven_mono)
  then have "real_of_int (nearestEven (x / ulp64 y)) \<le> real_of_int (nearestEven (y / ulp64 y))"
    by linarith
  with ulp64_pos [of y] show ?thesis
    unfolding round64_def u by (intro mult_right_mono) simp_all
next
  case False
  with exponent64_mono [OF assms] have less: "exponent64 x + 1 \<le> exponent64 y"
    by simp
  have "- 1022 \<le> exponent64 x"
    by (simp add: exponent64_def)
  with less have normal: "- 1022 < exponent64 y"
    by simp
  from assms have y: "0 < y"
    by simp
  have "round64 x \<le> 2 powi (exponent64 x + 1)"
    using assms(1) by (rule round64_above)
  also have "\<dots> \<le> 2 powi exponent64 y"
    using less by (intro power_int_increasing) simp_all
  also have "\<dots> \<le> round64 y"
    using y normal by (rule round64_below)
  finally show ?thesis .
qed

lemma round64_eqI:
  assumes lo: "2 powi e \<le> x" and hi: "x < 2 powi (e + 1)" and e: "- 1022 \<le> e"
    and k: "real_of_int k - 1 / 2 < x / 2 powi (e - 52)" "x / 2 powi (e - 52) < real_of_int k + 1 / 2"
  shows "round64 x = real_of_int k * 2 powi (e - 52)"
proof -
  have "(0::real) < 2 powi e"
    by simp
  with lo have x: "0 < x"
    by linarith
  have "2 powr real_of_int e = (2::real) powi e" "2 powr real_of_int (e + 1) = (2::real) powi (e + 1)"
    by (rule powr_real_of_int'; simp)+
  with lo hi have "2 powr real_of_int e \<le> x \<and> x < 2 powr real_of_int (e + 1)"
    by simp
  with x have "\<lfloor>log 2 x\<rfloor> = e"
    using floor_log_eq_powr_iff [of x 2 e] by simp
  with x e have "exponent64 x = e"
    by (simp add: exponent64_def)
  then have u: "ulp64 x = 2 powi (e - 52)"
    by (simp add: ulp64_def)
  show ?thesis
    unfolding round64_def u nearestEven_eqI [OF k] ..
qed

lemma round64_four_sevenths: "round64 (4 / 7) = 2573485501354569 / 4503599627370496"
  using round64_eqI [of "- 1" "4 / 7" 5146971002709138] by simp

lemma round64_four_sevenths': "round64 (4 / (7 + 1 / 2 ^ 50)) = 2573485501354569 / 4503599627370496"
  using round64_eqI [of "- 1" "4 / (7 + 1 / 2 ^ 50)" 5146971002709138] by simp

lemma js_lt_irrefl: "\<not> js_lt a a"
  by (cases a) simp_all

lemma nonneg_cases:
  assumes "js_le (Fin 0) a" and "a \<noteq> NegZero"
  obtains "a = PosInf" | x where "0 \<le> x" "a = Fin x"
  using assms by (cases a) simp_all

lemma binary64_nonneg:
  assumes "0 \<le> x"
  shows "binary64 (Fin x) = PosInf \<or> (\<exists>y. 0 \<le> y \<and> binary64 (Fin x) = Fin y)"
  using assms round64_nonneg [of x] by (auto simp: binary64_def signedInf_def signedZero_def)

lemma binary64_mono_Fin:
  assumes "0 \<le> x" and "x \<le> y"
  shows "js_le (binary64 (Fin x)) (binary64 (Fin y))"
proof (cases "x = 0")
  case True
  with binary64_nonneg [of y] assms show ?thesis
    by (auto simp: binary64_def)
next
  case False
  with assms have x: "0 < x" and y: "0 < y"
    by simp_all
  from x assms(2) have m: "round64 x \<le> round64 y"
    by (rule round64_mono)
  from x y have "0 \<le> round64 x" "0 \<le> round64 y"
    by (simp_all add: round64_nonneg)
  with m x y show ?thesis
    by (auto simp: binary64_def signedInf_def signedZero_def)
qed

lemma binary64_mono:
  assumes "js_le (Fin 0) a" "a \<noteq> NegZero" "js_le (Fin 0) b" "b \<noteq> NegZero" "js_le a b"
  shows "js_le (binary64 a) (binary64 b) \<and> js_le (Fin 0) (binary64 a) \<and> binary64 a \<noteq> NegZero \<and>
         js_le (Fin 0) (binary64 b) \<and> binary64 b \<noteq> NegZero"
proof -
  have nn: "js_le (Fin 0) (binary64 c) \<and> binary64 c \<noteq> NegZero"
    if "js_le (Fin 0) c" "c \<noteq> NegZero" for c
    using that
  proof (cases c rule: nonneg_cases)
    case 1
    then show ?thesis by (simp add: binary64_def)
  next
    case (2 x)
    with binary64_nonneg [of x] show ?thesis by auto
  qed
  from assms(1,2) show ?thesis
  proof (cases a rule: nonneg_cases)
    case 1
    with assms(5) have "b = PosInf"
      by (cases b) simp_all
    with 1 show ?thesis
      by (simp add: binary64_def)
  next
    case a: (2 x)
    from assms(3,4) show ?thesis
    proof (cases b rule: nonneg_cases)
      case 1
      with a nn [of a] assms(1,2) binary64_nonneg [of x] show ?thesis
        by (auto simp: binary64_def)
    next
      case b: (2 y)
      with a assms(5) have "x \<le> y"
        by simp
      with a b binary64_mono_Fin [of x y] nn [of a] nn [of b] assms show ?thesis
        by simp
    qed
  qed
qed

lemma js_sqrt_mono:
  assumes "js_le (Fin 0) a" "a \<noteq> NegZero" "js_le (Fin 0) b" "b \<noteq> NegZero" "js_le a b"
  shows "js_le (js_sqrt a) (js_sqrt b) \<and> js_le (Fin 0) (js_sqrt a) \<and> js_sqrt a \<noteq> NegZero \<and>
         js_le (Fin 0) (js_sqrt b) \<and> js_sqrt b \<noteq> NegZero"
  using assms by (cases a; cases b) (simp_all add: not_less [symmetric])

lemma js_double_mono:
  assumes "js_le (Fin 0) a" "a \<noteq> NegZero" "js_le (Fin 0) b" "b \<noteq> NegZero" "js_le a b"
  shows "js_le (js_mul (Fin 2) a) (js_mul (Fin 2) b) \<and>
         js_le (Fin 0) (js_mul (Fin 2) a) \<and> js_mul (Fin 2) a \<noteq> NegZero \<and>
         js_le (Fin 0) (js_mul (Fin 2) b) \<and> js_mul (Fin 2) b \<noteq> NegZero"
  using assms by (cases a; cases b) (auto simp: js_mul_def signedZero_def signedInf_def)

lemma js_reciprocal_antimono:
  assumes "js_le (Fin 0) a" "a \<noteq> NegZero" "js_le (Fin 0) b" "b \<noteq> NegZero" "js_le a b"
  shows "js_le (js_div (Fin 1) b) (js_div (Fin 1) a) \<and>
         js_le (Fin 0) (js_div (Fin 1) a) \<and> js_div (Fin 1) a \<noteq> NegZero \<and>
         js_le (Fin 0) (js_div (Fin 1) b) \<and> js_div (Fin 1) b \<noteq> NegZero"
  using assms by (cases a; cases b) (auto simp: js_div_def signedZero_def signedInf_def frac_le)

lemma expectedMeanR_antimono:
  assumes "js_le (Fin 0) a" "a \<noteq> NegZero" "js_le (Fin 0) b" "b \<noteq> NegZero" "js_le a b"
  shows "js_le (expectedMeanR binary64 b) (expectedMeanR binary64 a)"
proof -
  let ?root = "\<lambda>d. binary64 (js_sqrt d)"
  let ?twice = "\<lambda>d. binary64 (js_mul (Fin 2) (?root d))"
  from js_sqrt_mono [OF assms]
  have "js_le (Fin 0) (js_sqrt a)" "js_sqrt a \<noteq> NegZero"
    "js_le (Fin 0) (js_sqrt b)" "js_sqrt b \<noteq> NegZero" "js_le (js_sqrt a) (js_sqrt b)"
    by simp_all
  from binary64_mono [OF this]
  have "js_le (Fin 0) (?root a)" "?root a \<noteq> NegZero"
    "js_le (Fin 0) (?root b)" "?root b \<noteq> NegZero" "js_le (?root a) (?root b)"
    by simp_all
  from js_double_mono [OF this]
  have "js_le (Fin 0) (js_mul (Fin 2) (?root a))" "js_mul (Fin 2) (?root a) \<noteq> NegZero"
    "js_le (Fin 0) (js_mul (Fin 2) (?root b))" "js_mul (Fin 2) (?root b) \<noteq> NegZero"
    "js_le (js_mul (Fin 2) (?root a)) (js_mul (Fin 2) (?root b))"
    by simp_all
  from binary64_mono [OF this]
  have "js_le (Fin 0) (?twice a)" "?twice a \<noteq> NegZero"
    "js_le (Fin 0) (?twice b)" "?twice b \<noteq> NegZero" "js_le (?twice a) (?twice b)"
    by simp_all
  from js_reciprocal_antimono [OF this]
  have "js_le (Fin 0) (js_div (Fin 1) (?twice b))" "js_div (Fin 1) (?twice b) \<noteq> NegZero"
    "js_le (Fin 0) (js_div (Fin 1) (?twice a))" "js_div (Fin 1) (?twice a) \<noteq> NegZero"
    "js_le (js_div (Fin 1) (?twice b)) (js_div (Fin 1) (?twice a))"
    by simp_all
  from binary64_mono [OF this]
  show ?thesis
    by (simp only: expectedMeanR_def)
qed

lemma populationDensityR_antimono:
  assumes "0 < n" and "0 < c1" and "c1 \<le> c2"
  shows "js_le (populationDensityR binary64 n (Fin c2)) (populationDensityR binary64 n (Fin c1)) \<and>
         js_le (Fin 0) (populationDensityR binary64 n (Fin c2)) \<and>
         populationDensityR binary64 n (Fin c2) \<noteq> NegZero \<and>
         js_le (Fin 0) (populationDensityR binary64 n (Fin c1)) \<and>
         populationDensityR binary64 n (Fin c1) \<noteq> NegZero"
proof -
  from assms have c2: "0 < c2"
    by simp
  have d1: "js_div (Fin (real n)) (Fin c1) = Fin (real n / c1)"
    using assms by (simp add: js_div_def)
  have d2: "js_div (Fin (real n)) (Fin c2) = Fin (real n / c2)"
    using assms c2 by (simp add: js_div_def)
  from assms c2 have le: "real n / c2 \<le> real n / c1"
    by (simp add: frac_le)
  from assms c2 have nn: "0 \<le> real n / c2" "0 \<le> real n / c1"
    by simp_all
  have "js_le (Fin 0) (Fin (real n / c2))" "Fin (real n / c2) \<noteq> NegZero"
    "js_le (Fin 0) (Fin (real n / c1))" "Fin (real n / c1) \<noteq> NegZero"
    "js_le (Fin (real n / c2)) (Fin (real n / c1))"
    using le nn by simp_all
  then show ?thesis
    unfolding populationDensityR_def d1 d2 by (rule binary64_mono)
qed

lemma nearestNeighborAnalysisR_InrE:
  assumes "nearestNeighborAnalysisR rnd T dataset options = Inr r"
  obtains studyArea features distances a convertedArea where
    "resolveStudyArea T dataset options = Inr studyArea"
    "collectFeatures T dataset = Inr features"
    "nearestNeighborDistances T (resolveUnits options) features = Inr distances"
    "area T studyArea = Inr a"
    "convertArea T a ''meters'' (resolveUnits options) = Inr convertedArea"
    "r = studyArea\<lparr>properties :=
           Some ((resolveProperties options)(''nearestNeighborAnalysis'' \<mapsto>
             Analysis (analysisR rnd (resolveUnits options) (length features)
               (meanDistanceR rnd distances (length features)) convertedArea)))\<rparr>"
  using assms unfolding nearestNeighborAnalysisR_def
  by (auto split: sum.splits)

lemma nearestNeighborAnalysisR_InrI:
  assumes "resolveStudyArea T dataset options = Inr studyArea"
    and "collectFeatures T dataset = Inr features"
    and "nearestNeighborDistances T (resolveUnits options) features = Inr distances"
    and "area T studyArea = Inr a"
    and "convertArea T a ''meters'' (resolveUnits options) = Inr convertedArea"
  shows "nearestNeighborAnalysisR rnd T dataset options =
     Inr (studyArea\<lparr>properties :=
           Some ((resolveProperties options)(''nearestNeighborAnalysis'' \<mapsto>
             Analysis (analysisR rnd (resolveUnits options) (length features)
               (meanDistanceR rnd distances (length features)) convertedArea)))\<rparr>)"
  using assms unfolding nearestNeighborAnalysisR_def by simp

lemma nearestNeighborAnalysisR_exact:
  "nearestNeighborAnalysisR (\<lambda>x. x) T dataset options = nearestNeighborAnalysis T dataset options"
proof -
  have "foldl (\<lambda>sum value. js_add sum value) = foldl js_add"
    by (rule arg_cong) (rule refl)
  then have m: "meanDistanceR (\<lambda>x. x) ds n = meanDistance ds n" for ds n
    by (simp add: meanDistanceR_def meanDistance_def)
  have a: "analysisR (\<lambda>x. x) u n obs ca = analysis u n obs ca" for u n obs ca
    by (simp add: analysisR_def analysis_def populationDensityR_def populationDensity_def
        expectedMeanR_def expectedMean_def varianceR_def variance_def)
  show ?thesis
    unfolding nearestNeighborAnalysisR_def nearestNeighborAnalysis_def m a ..
qed

lemma analysisR_expected:
  "expectedMeanDistance (analysisR rnd u n obs ca) = expectedMeanR rnd (populationDensityR rnd n ca)"
  by (simp add: analysisR_def Let_def)

section \<open>Runs on the planar instance\<close>

lemmas planar_defs = planar_def planarArea_def planarBbox_def planarBboxPolygon_def
  planarCentroid_def planarDistance_def planarNearestPoint_def planarFeatureEach_def
  planarConvertArea_def

lemma sqrt_16: "sqrt 16 = 4"
  using real_sqrt_abs [of 4] by simp

lemma unitSquare_area:
  "area planar unitSquare = Inr (Fin 1)"
  "area selfNearest unitSquare = Inr (Fin 1)"
  by (simp_all add: planar_defs unitSquare_def selfNearest_def)

lemma meters_area:
  "convertArea planar (Fin 1) ''meters'' ''meters'' = Inr (Fin 1)"
  "convertArea selfNearest (Fin 1) ''meters'' ''meters'' = Inr (Fin 1)"
  by (simp_all add: planar_defs selfNearest_def)


lemma studying_units: "resolveUnits (Some (studying studyArea)) = ''meters''"
  by (simp add: resolveUnits_def resolveOptions_def studying_def)

lemma studying_studyArea: "resolveStudyArea T dataset (Some (studying studyArea)) = Inr studyArea"
  by (simp add: resolveStudyArea_def resolveOptions_def studying_def)

lemma studying_properties: "resolveProperties (Some (studying studyArea)) = Map.empty"
  by (simp add: resolveProperties_def resolveOptions_def studying_def)

lemma square_features: "collectFeatures planar square = Inr [pt 0 0, pt 1 0, pt 1 1, pt 0 1]"
  by (simp add: collectFeatures_def planar_defs square_def pt_def)

lemma square_distances:
  "nearestNeighborDistances planar ''meters'' [pt 0 0, pt 1 0, pt 1 1, pt 0 1] = Inr [Fin 1, Fin 1, Fin 1, Fin 1]"
  by (simp add: nearestNeighborDistances_def nearestNeighborDistance_def otherFeatures_def featureCollection_def planar_defs pt_def)

lemma square_studyArea:
  "resolveStudyArea planar square (Some inMeters) = Inr \<lparr>geometry = Rect 0 0 1 1, properties = Some Map.empty\<rparr>"
  by (simp add: resolveStudyArea_def resolveOptions_def inMeters_def planar_defs square_def pt_def)

lemma square_area:
  "area planar \<lparr>geometry = Rect 0 0 1 1, properties = Some Map.empty\<rparr> = Inr (Fin 1)"
  "convertArea planar (Fin 1) ''meters'' ''meters'' = Inr (Fin 1)"
  by (simp_all add: planar_defs)

lemma square_analysis:
  "analysis ''meters'' 4 (meanDistance [Fin 1, Fin 1, Fin 1, Fin 1] 4) (Fin 1) =
     \<lparr>units = ''meters'', arealUnits = ''meters'' @ [CHR 0xB2],
      observedMeanDistance = Fin 1, expectedMeanDistance = Fin (1 / 4),
      nearestNeighborIndex = Fin 4, numberOfPoints = 4, zScore = Fin (12500 / 1089)\<rparr>"
  by (simp add: analysis_def meanDistance_def populationDensity_def expectedMean_def variance_def
      js_div_def js_mul_def js_add_def js_sub_def signedZero_def signedInf_def sqrt_16)

lemma square_run:
  "nearestNeighborAnalysis planar square (Some inMeters) =
     Inr squareOutcome"
proof -
  have u: "resolveUnits (Some inMeters) = ''meters''"
    by (simp add: resolveUnits_def resolveOptions_def inMeters_def)
  have p: "resolveProperties (Some inMeters) = Map.empty"
    by (simp add: resolveProperties_def resolveOptions_def inMeters_def)
  have n: "Suc (Suc (Suc (Suc 0))) = 4"
    by simp
  show ?thesis
    unfolding nearestNeighborAnalysis_def
    by (simp add: u p n square_studyArea square_features square_distances square_area square_analysis
        squareOutcome_def squareAnalysis_def)
qed

lemma squareOutcome_analysis: "analysisOf squareOutcome = Some squareAnalysis"
  by (simp add: analysisOf_def squareOutcome_def)

lemma supplied_run:
  assumes "opt_studyArea opts = Some studyArea" and "opt_units opts = Some ''meters''"
    and "geometry studyArea = Rect 0 0 1 1"
  shows "nearestNeighborAnalysis planar square (Some opts) =
     Inr (studyArea\<lparr>properties :=
       Some ((resolveProperties (Some opts))(''nearestNeighborAnalysis'' \<mapsto> Analysis squareAnalysis))\<rparr>)"
proof -
  have u: "resolveUnits (Some opts) = ''meters''"
    using assms by (simp add: resolveUnits_def resolveOptions_def)
  have sa: "resolveStudyArea planar square (Some opts) = Inr studyArea"
    using assms by (simp add: resolveStudyArea_def resolveOptions_def)
  have ar: "area planar studyArea = Inr (Fin 1)"
    using assms by (simp add: planar_defs)
  have ca: "convertArea planar (Fin 1) ''meters'' (resolveUnits (Some opts)) = Inr (Fin 1)"
    by (simp add: u square_area)
  have ds: "nearestNeighborDistances planar (resolveUnits (Some opts)) [pt 0 0, pt 1 0, pt 1 1, pt 0 1] =
      Inr [Fin 1, Fin 1, Fin 1, Fin 1]"
    by (simp add: u square_distances)
  have n: "length [pt 0 0, pt 1 0, pt 1 1, pt 0 1] = 4"
    by simp
  show ?thesis
    unfolding nearestNeighborAnalysis_InrI [OF sa square_features ds ar ca] n u square_analysis
      squareAnalysis_def ..
qed

lemma studying_runR:
  assumes "area planar studyArea = Inr (Fin a)" and "0 \<le> a"
  shows "nearestNeighborAnalysisR rnd planar square (Some (studying studyArea)) =
     Inr (studyArea\<lparr>properties :=
       Some (Map.empty(''nearestNeighborAnalysis'' \<mapsto>
         Analysis (analysisR rnd ''meters'' (length [pt 0 0, pt 1 0, pt 1 1, pt 0 1])
           (meanDistanceR rnd [Fin 1, Fin 1, Fin 1, Fin 1] (length [pt 0 0, pt 1 0, pt 1 1, pt 0 1]))
           (Fin a))))\<rparr>)"
proof -
  have ds: "nearestNeighborDistances planar (resolveUnits (Some (studying studyArea)))
      [pt 0 0, pt 1 0, pt 1 1, pt 0 1] = Inr [Fin 1, Fin 1, Fin 1, Fin 1]"
    unfolding studying_units by (rule square_distances)
  have ca: "convertArea planar (Fin a) ''meters'' (resolveUnits (Some (studying studyArea))) = Inr (Fin a)"
    unfolding studying_units using assms(2) by (simp add: planar_defs)
  show ?thesis
    using nearestNeighborAnalysisR_InrI [OF studying_studyArea square_features ds assms(1) ca]
    unfolding studying_units studying_properties .
qed

lemma binary64_FinI:
  assumes "x \<noteq> 0" and "round64 x = y" and "y \<noteq> 0" and "\<bar>y\<bar> < 2 ^ 1024"
  shows "binary64 (Fin x) = Fin y"
  using assms by (simp add: binary64_def)

lemma density_sevenWide:
  "populationDensityR binary64 4 (Fin 7) = Fin (2573485501354569 / 4503599627370496)"
proof -
  have "js_div (Fin (real 4)) (Fin 7) = Fin (4 / 7)"
    by (simp add: js_div_def)
  moreover have "binary64 (Fin (4 / 7)) = Fin (2573485501354569 / 4503599627370496)"
    by (rule binary64_FinI [OF _ round64_four_sevenths]) simp_all
  ultimately show ?thesis
    by (simp only: populationDensityR_def)
qed

lemma density_sevenWider:
  "populationDensityR binary64 4 (Fin (7 + 1 / 2 ^ 50)) = Fin (2573485501354569 / 4503599627370496)"
proof -
  have "js_div (Fin (real 4)) (Fin (7 + 1 / 2 ^ 50)) = Fin (4 / (7 + 1 / 2 ^ 50))"
    by (simp add: js_div_def)
  moreover have "binary64 (Fin (4 / (7 + 1 / 2 ^ 50))) = Fin (2573485501354569 / 4503599627370496)"
    by (rule binary64_FinI [OF _ round64_four_sevenths']) simp_all
  ultimately show ?thesis
    by (simp only: populationDensityR_def)
qed

lemma mixed_features: "collectFeatures planar mixed = Inr [pt 1 1, pt 1 1]"
  by (simp add: collectFeatures_def planar_defs mixed_def wideSquare_def pt_def)

lemma mixed_distances:
  "nearestNeighborDistances planar ''meters'' [pt 1 1, pt 1 1] = Inr [Fin 0, Fin 0]"
  by (simp add: nearestNeighborDistances_def nearestNeighborDistance_def otherFeatures_def
      featureCollection_def planar_defs pt_def)

lemma mixed_run:
  "nearestNeighborAnalysis planar mixed (Some (studying wideSquare)) =
     Inr (wideSquare\<lparr>properties :=
       Some (Map.empty(''nearestNeighborAnalysis'' \<mapsto>
         Analysis (analysis ''meters'' 2 (meanDistance [Fin 0, Fin 0] 2) (Fin 4))))\<rparr>)"
proof -
  have ds: "nearestNeighborDistances planar (resolveUnits (Some (studying wideSquare)))
      [pt 1 1, pt 1 1] = Inr [Fin 0, Fin 0]"
    unfolding studying_units by (rule mixed_distances)
  have ar: "area planar wideSquare = Inr (Fin 4)"
    by (simp add: planar_defs wideSquare_def)
  have ca: "convertArea planar (Fin 4) ''meters'' (resolveUnits (Some (studying wideSquare))) = Inr (Fin 4)"
    unfolding studying_units by (simp add: planar_defs)
  have len: "length [pt 1 1, pt 1 1] = 2"
    by simp
  show ?thesis
    using nearestNeighborAnalysis_InrI [OF studying_studyArea mixed_features ds ar ca]
    unfolding studying_units studying_properties len .
qed

lemma repeated_features: "collectFeatures planar repeated = Inr [pt 0 0, pt 1 0, pt 0 0]"
  by (simp add: collectFeatures_def planar_defs repeated_def pt_def)

lemma repeated_distances:
  "nearestNeighborDistances planar ''meters'' [pt 0 0, pt 1 0, pt 0 0] = Inr [Fin 0, Fin 1, Fin 0]"
  by (simp add: nearestNeighborDistances_def nearestNeighborDistance_def otherFeatures_def
      featureCollection_def planar_defs pt_def)

lemma repeated_run:
  "nearestNeighborAnalysis planar repeated (Some (studying unitSquare)) =
     Inr (unitSquare\<lparr>properties :=
       Some ((resolveProperties (Some (studying unitSquare)))(''nearestNeighborAnalysis'' \<mapsto>
         Analysis (analysis ''meters'' (length [pt 0 0, pt 1 0, pt 0 0])
           (meanDistance [Fin 0, Fin 1, Fin 0] (length [pt 0 0, pt 1 0, pt 0 0])) (Fin 1))))\<rparr>)"
proof -
  have sa: "resolveStudyArea planar repeated (Some (studying unitSquare)) = Inr unitSquare"
    by (simp add: resolveStudyArea_def resolveOptions_def studying_def)
  have ds: "nearestNeighborDistances planar (resolveUnits (Some (studying unitSquare)))
      [pt 0 0, pt 1 0, pt 0 0] = Inr [Fin 0, Fin 1, Fin 0]"
    unfolding studying_units by (rule repeated_distances)
  have ar: "area planar unitSquare = Inr (Fin 1)"
    by (simp add: planar_defs unitSquare_def)
  have ca: "convertArea planar (Fin 1) ''meters'' (resolveUnits (Some (studying unitSquare))) = Inr (Fin 1)"
    unfolding studying_units by (simp add: planar_defs)
  show ?thesis
    using nearestNeighborAnalysis_InrI [OF sa repeated_features ds ar ca]
    unfolding studying_units .
qed

lemma empty_analysis:
  "analysis ''meters'' 0 (meanDistance [] 0) (Fin 1) = emptyAnalysis"
  by (simp add: analysis_def meanDistance_def populationDensity_def expectedMean_def variance_def
      js_div_def js_mul_def js_add_def js_sub_def signedZero_def signedInf_def emptyAnalysis_def)

lemma single_analysis:
  "analysis ''meters'' (Suc 0) (meanDistance [Fin 0] (Suc 0)) (Fin 1) = singleAnalysis"
  by (simp add: analysis_def meanDistance_def populationDensity_def expectedMean_def variance_def
      js_div_def js_mul_def js_add_def js_sub_def signedZero_def signedInf_def singleAnalysis_def)

lemma planar_empty_run:
  "nearestNeighborAnalysis planar noPoints (Some (studying unitSquare)) =
     Inr (unitSquare\<lparr>properties :=
       Some (Map.empty(''nearestNeighborAnalysis'' \<mapsto> Analysis emptyAnalysis))\<rparr>)"
proof -
  have fs: "collectFeatures planar noPoints = Inr []"
    by (simp add: collectFeatures_def planar_defs noPoints_def)
  have ds: "nearestNeighborDistances planar (resolveUnits (Some (studying unitSquare))) [] = Inr []"
    by (simp add: nearestNeighborDistances_def)
  have ca: "convertArea planar (Fin 1) ''meters'' (resolveUnits (Some (studying unitSquare))) = Inr (Fin 1)"
    unfolding studying_units by (rule meters_area)
  show ?thesis
    using nearestNeighborAnalysis_InrI [OF studying_studyArea fs ds unitSquare_area(1) ca]
    unfolding studying_units studying_properties by (simp add: empty_analysis)
qed

lemma planar_single_run:
  "nearestNeighborAnalysis planar onePoint (Some (studying unitSquare)) =
     Inl (Error ''geojson is required'')"
proof -
  have fs: "collectFeatures planar onePoint = Inr [pt 0 0]"
    by (simp add: collectFeatures_def planar_defs onePoint_def pt_def)
  have ds: "nearestNeighborDistances planar ''meters'' [pt 0 0] = Inl (Error ''geojson is required'')"
    by (simp add: nearestNeighborDistances_def nearestNeighborDistance_def otherFeatures_def
        featureCollection_def planar_defs)
  show ?thesis
    by (simp add: nearestNeighborAnalysis_def studying_studyArea studying_units fs ds)
qed

lemma selfNearest_single_run:
  "nearestNeighborAnalysis selfNearest onePoint (Some (studying unitSquare)) =
     Inr (unitSquare\<lparr>properties :=
       Some (Map.empty(''nearestNeighborAnalysis'' \<mapsto> Analysis singleAnalysis))\<rparr>)"
proof -
  have fs: "collectFeatures selfNearest onePoint = Inr [pt 0 0]"
    by (simp add: collectFeatures_def selfNearest_def planar_defs onePoint_def pt_def)
  have ds: "nearestNeighborDistances selfNearest (resolveUnits (Some (studying unitSquare))) [pt 0 0] =
      Inr [Fin 0]"
    unfolding studying_units
    by (simp add: nearestNeighborDistances_def nearestNeighborDistance_def selfNearest_def
        planar_defs pt_def)
  have ca: "convertArea selfNearest (Fin 1) ''meters'' (resolveUnits (Some (studying unitSquare))) = Inr (Fin 1)"
    unfolding studying_units by (rule meters_area)
  show ?thesis
    using nearestNeighborAnalysis_InrI [OF studying_studyArea fs ds unitSquare_area(2) ca]
    unfolding studying_units studying_properties by (simp add: single_analysis)
qed

section \<open>The statistics of a run\<close>







section \<open>Self-exclusion\<close>

text \<open>
  C4, as amended. On a run that returns, the distance of the feature at index \<open>i\<close> of the
  centroids is the distance to the answer of the nearest-point search over the collection
  of the centroids at all other indices, in their order: every member of that collection
  sits at an index other than \<open>i\<close>, and every centroid at another index is a member. The
  distance can be 0 all the same, and not only when two input features share their
  coordinates: the centroids of two different features can coincide.
\<close>

theorem self_exclusion:
  assumes run: "nearestNeighborAnalysis T dataset options = Inr r"
  shows "\<exists>features distances res.
           collectFeatures T dataset = Inr features \<and>
           nearestNeighborDistances T (resolveUnits options) features = Inr distances \<and>
           length distances = length features \<and>
           analysisOf r = Some res \<and>
           observedMeanDistance res = meanDistance distances (length features) \<and>
           (\<forall>i < length features.
              otherFeatures features i = take i features @ drop (Suc i) features \<and>
              length (otherFeatures features i) = length features - 1 \<and>
              (\<forall>x \<in> set (otherFeatures features i). \<exists>j < length features. j \<noteq> i \<and> features ! j = x) \<and>
              (\<forall>j < length features. j \<noteq> i \<longrightarrow> features ! j \<in> set (otherFeatures features i)) \<and>
              (\<exists>nearest.
                 nearestPoint T (features ! i) (featureCollection (otherFeatures features i)) = Inr nearest \<and>
                 distance T (features ! i) nearest (resolveUnits options) = Inr (distances ! i)))"
proof -
  from run obtain studyArea features distances a convertedArea where
    fs: "collectFeatures T dataset = Inr features" and
    ds: "nearestNeighborDistances T (resolveUnits options) features = Inr distances" and
    r: "r = studyArea\<lparr>properties :=
           Some ((resolveProperties options)(''nearestNeighborAnalysis'' \<mapsto>
             Analysis (analysis (resolveUnits options) (length features)
               (meanDistance distances (length features)) convertedArea)))\<rparr>"
    by (blast elim: nearestNeighborAnalysis_InrE)
  let ?unit = "resolveUnits options"
  let ?res = "analysis ?unit (length features) (meanDistance distances (length features)) convertedArea"
  have res: "analysisOf r = Some ?res"
    unfolding r by (rule analysisOf_update)
  have obs: "observedMeanDistance ?res = meanDistance distances (length features)"
    by (simp add: analysis_fields)
  from ds have len: "length distances = length features"
    by (rule nearestNeighborDistances_length)
  have each: "otherFeatures features i = take i features @ drop (Suc i) features \<and>
      length (otherFeatures features i) = length features - 1 \<and>
      (\<forall>x \<in> set (otherFeatures features i). \<exists>j < length features. j \<noteq> i \<and> features ! j = x) \<and>
      (\<forall>j < length features. j \<noteq> i \<longrightarrow> features ! j \<in> set (otherFeatures features i)) \<and>
      (\<exists>nearest.
         nearestPoint T (features ! i) (featureCollection (otherFeatures features i)) = Inr nearest \<and>
         distance T (features ! i) nearest ?unit = Inr (distances ! i))"
    if i: "i < length features" for i
  proof -
    from ds i have "nearestNeighborDistance T ?unit features (i, features ! i) = Inr (distances ! i)"
      by (rule nearestNeighborDistances_nth)
    then obtain nearest where
      n: "nearestPoint T (features ! i) (featureCollection (otherFeatures features i)) = Inr nearest" and
      d: "distance T (features ! i) nearest ?unit = Inr (distances ! i)"
      by (auto simp: nearestNeighborDistance_def split: sum.splits)
    have o: "otherFeatures features i = take i features @ drop (Suc i) features"
      by (rule otherFeatures_take_drop)
    have l: "length (otherFeatures features i) = length features - 1"
      unfolding o using i by (rule others_length)
    have m: "\<forall>x \<in> set (otherFeatures features i). \<exists>j < length features. j \<noteq> i \<and> features ! j = x"
      unfolding o by (intro ballI) (rule others_nth)
    have m': "\<forall>j < length features. j \<noteq> i \<longrightarrow> features ! j \<in> set (otherFeatures features i)"
      unfolding o by (intro allI impI) (rule others_member)
    from n d have e: "\<exists>nearest.
         nearestPoint T (features ! i) (featureCollection (otherFeatures features i)) = Inr nearest \<and>
         distance T (features ! i) nearest ?unit = Inr (distances ! i)"
      by (intro exI conjI)
    from o l m m' e show ?thesis
      by (intro conjI)
  qed
  then have all: "\<forall>i < length features.
      otherFeatures features i = take i features @ drop (Suc i) features \<and>
      length (otherFeatures features i) = length features - 1 \<and>
      (\<forall>x \<in> set (otherFeatures features i). \<exists>j < length features. j \<noteq> i \<and> features ! j = x) \<and>
      (\<forall>j < length features. j \<noteq> i \<longrightarrow> features ! j \<in> set (otherFeatures features i)) \<and>
      (\<exists>nearest.
         nearestPoint T (features ! i) (featureCollection (otherFeatures features i)) = Inr nearest \<and>
         distance T (features ! i) nearest ?unit = Inr (distances ! i))"
    by (intro allI impI)
  show ?thesis
    apply (rule exI [of _ features])
    apply (rule exI [of _ distances])
    apply (rule exI [of _ ?res])
    apply (intro conjI)
         apply (rule fs)
        apply (rule ds)
       apply (rule len)
      apply (rule res)
     apply (rule obs)
    apply (rule all)
    done
qed

theorem self_exclusion_witness:
  "(\<exists>r. nearestNeighborAnalysis planar repeated (Some (studying unitSquare)) = Inr r) \<and>
   collectFeatures planar repeated = Inr [pt 0 0, pt 1 0, pt 0 0] \<and>
   nearestNeighborDistances planar ''meters'' [pt 0 0, pt 1 0, pt 0 0] = Inr [Fin 0, Fin 1, Fin 0] \<and>
   otherFeatures [pt 0 0, pt 1 0, pt 0 0] 1 = [pt 0 0, pt 0 0] \<and>
   nearestPoint planar (pt 1 0) (featureCollection [pt 0 0, pt 0 0]) = Inr (pt 0 0) \<and>
   distance planar (pt 1 0) (pt 0 0) ''meters'' = Inr (Fin 1)"
proof -
  let ?fs = "[pt 0 0, pt 1 0, pt 0 0]"
  let ?ds = "[Fin 0, Fin 1, Fin 0]"
  from self_exclusion [OF repeated_run]
  obtain features distances where
    fs: "collectFeatures planar repeated = Inr features" and
    ds: "nearestNeighborDistances planar (resolveUnits (Some (studying unitSquare))) features = Inr distances" and
    each: "\<forall>i < length features.
              otherFeatures features i = take i features @ drop (Suc i) features \<and>
              length (otherFeatures features i) = length features - 1 \<and>
              (\<forall>x \<in> set (otherFeatures features i). \<exists>j < length features. j \<noteq> i \<and> features ! j = x) \<and>
              (\<forall>j < length features. j \<noteq> i \<longrightarrow> features ! j \<in> set (otherFeatures features i)) \<and>
              (\<exists>nearest.
                 nearestPoint planar (features ! i) (featureCollection (otherFeatures features i)) = Inr nearest \<and>
                 distance planar (features ! i) nearest (resolveUnits (Some (studying unitSquare))) = Inr (distances ! i))"
    by (elim exE conjE)
  from fs have f: "features = ?fs"
    by (simp add: repeated_features)
  from ds have d: "distances = ?ds"
    unfolding f studying_units by (simp add: repeated_distances)
  have i: "1 < length ?fs"
    by simp
  note at1 = each [rule_format, of 1, unfolded f d studying_units, OF i]
  from at1 have o: "otherFeatures ?fs 1 = take 1 ?fs @ drop (Suc 1) ?fs"
    by (rule conjunct1)
  from at1 have e: "\<exists>nearest.
        nearestPoint planar (?fs ! 1) (featureCollection (otherFeatures ?fs 1)) = Inr nearest \<and>
        distance planar (?fs ! 1) nearest ''meters'' = Inr (?ds ! 1)"
    by (elim conjE)
  from o have o': "otherFeatures ?fs 1 = [pt 0 0, pt 0 0]"
    by simp
  have np: "nearestPoint planar (pt 1 0) (featureCollection [pt 0 0, pt 0 0]) = Inr (pt 0 0)"
    by (simp add: featureCollection_def planar_defs pt_def)
  from e obtain nearest where
    "nearestPoint planar (pt 1 0) (featureCollection [pt 0 0, pt 0 0]) = Inr nearest"
    "distance planar (pt 1 0) nearest ''meters'' = Inr (Fin 1)"
    unfolding o' by auto
  with np have dist: "distance planar (pt 1 0) (pt 0 0) ''meters'' = Inr (Fin 1)"
    by simp
  have run: "\<exists>r. nearestNeighborAnalysis planar repeated (Some (studying unitSquare)) = Inr r"
    by (rule exI, rule repeated_run)
  from run repeated_features repeated_distances o' np dist show ?thesis
    by (intro conjI)
qed

theorem self_exclusion_counterexample:
  "nearestNeighborAnalysis planar mixed (Some (studying wideSquare)) =
     Inr (wideSquare\<lparr>properties :=
       Some (Map.empty(''nearestNeighborAnalysis'' \<mapsto>
         Analysis (analysis ''meters'' 2 (meanDistance [Fin 0, Fin 0] 2) (Fin 4))))\<rparr>) \<and>
   collectFeatures planar mixed = Inr [pt 1 1, pt 1 1] \<and>
   nearestNeighborDistances planar ''meters'' [pt 1 1, pt 1 1] = Inr [Fin 0, Fin 0] \<and>
   observedMeanDistance (analysis ''meters'' 2 (meanDistance [Fin 0, Fin 0] 2) (Fin 4)) = Fin 0 \<and>
   mixed = FeatureCollection [wideSquare, pt 1 1] \<and>
   geometry wideSquare = Rect 0 0 2 2 \<and>
   geometry (pt 1 1) = Point 1 1 \<and>
   set (corners (geometry wideSquare)) \<inter> set (corners (geometry (pt 1 1))) = {}"
proof -
  have obs: "observedMeanDistance (analysis ''meters'' 2 (meanDistance [Fin 0, Fin 0] 2) (Fin 4)) = Fin 0"
    by (simp add: analysis_fields meanDistance_def js_add_def js_div_def signedZero_def)
  have g: "geometry wideSquare = Rect 0 0 2 2" "geometry (pt 1 1) = Point 1 1"
    by (simp_all add: wideSquare_def pt_def)
  have c: "set (corners (geometry wideSquare)) \<inter> set (corners (geometry (pt 1 1))) = {}"
    unfolding g by simp
  from mixed_run mixed_features mixed_distances obs mixed_def g c show ?thesis
    by (intro conjI)
qed

section \<open>The number of points\<close>

text \<open>
  C5. Whenever a run returns, the field \<open>numberOfPoints\<close> is the number of features that
  the traversal of the dataset visits, each reduced to its centroid; for a
  FeatureCollection whose features the traversal visits in order, it is the number of
  features of the collection.
\<close>

theorem numberOfPoints_count:
  assumes "nearestNeighborAnalysis T dataset options = Inr r"
  shows "\<exists>res features.
           analysisOf r = Some res \<and>
           collectFeatures T dataset = Inr features \<and>
           numberOfPoints res = length features \<and>
           numberOfPoints res = length (fst (featureEach T dataset)) \<and>
           (\<forall>i. i < length features \<longrightarrow>
              centroid T (fst (featureEach T dataset) ! i) = Inr (features ! i)) \<and>
           (\<forall>fs. dataset = FeatureCollection fs \<and> featureEach T dataset = (fs, None) \<longrightarrow>
              numberOfPoints res = length fs)"
proof -
  from assms obtain studyArea features distances convertedArea where
    fs: "collectFeatures T dataset = Inr features" and
    r: "r = studyArea\<lparr>properties :=
           Some ((resolveProperties options)(''nearestNeighborAnalysis'' \<mapsto>
             Analysis (analysis (resolveUnits options) (length features)
               (meanDistance distances (length features)) convertedArea)))\<rparr>"
    by (blast elim: nearestNeighborAnalysis_InrE)
  let ?res = "analysis (resolveUnits options) (length features)
                (meanDistance distances (length features)) convertedArea"
  have res: "analysisOf r = Some ?res"
    unfolding r by (rule analysisOf_update)
  have n: "numberOfPoints ?res = length features"
    by (simp add: analysis_fields)
  from fs have len: "length features = length (fst (featureEach T dataset))"
    by (rule collectFeatures_length)
  from fs have m: "mapE (centroid T) (fst (featureEach T dataset)) = Inr features"
    by (auto simp: collectFeatures_def split: prod.splits sum.splits option.splits)
  have c: "centroid T (fst (featureEach T dataset) ! i) = Inr (features ! i)"
    if "i < length features" for i
    using m that len by (simp add: mapE_nth)
  have k: "numberOfPoints ?res = length fs"
    if "dataset = FeatureCollection fs" "featureEach T dataset = (fs, None)" for fs
    using that n len by simp
  from res fs n len c k show ?thesis
    by (metis (no_types, lifting))
qed

theorem numberOfPoints_count_witness:
  "nearestNeighborAnalysis planar square (Some inMeters) = Inr squareOutcome \<and>
   featureEach planar square = ([pt 0 0, pt 1 0, pt 1 1, pt 0 1], None) \<and>
   analysisOf squareOutcome = Some squareAnalysis \<and>
   numberOfPoints squareAnalysis = length [pt 0 0, pt 1 0, pt 1 1, pt 0 1]"
proof -
  from numberOfPoints_count [OF square_run]
  obtain res where
    res: "analysisOf squareOutcome = Some res" and
    k: "\<forall>fs. square = FeatureCollection fs \<and> featureEach planar square = (fs, None) \<longrightarrow>
              numberOfPoints res = length fs"
    by blast
  have t: "featureEach planar square = ([pt 0 0, pt 1 0, pt 1 1, pt 0 1], None)"
    by (simp add: planar_defs square_def)
  from res have "res = squareAnalysis"
    by (simp add: squareOutcome_analysis)
  with k t have "numberOfPoints squareAnalysis = length [pt 0 0, pt 1 0, pt 1 1, pt 0 1]"
    by (simp add: square_def)
  with square_run t squareOutcome_analysis show ?thesis
    by blast
qed

section \<open>Invalid and degenerate datasets\<close>

text \<open>
  C6. The traversal that index.js imports throws on a \<open>null\<close> or absent dataset before it
  visits a feature. The call then throws and returns no feature, before any centroid,
  distance or statistic is computed: the exception of the traversal itself whenever the
  study area has been resolved (always so when \<open>options.studyArea\<close> is supplied), otherwise
  the exception of \<open>bbox\<close> or \<open>bboxPolygon\<close>. The outcome does not depend on \<open>centroid\<close>,
  \<open>nearestPoint\<close>, \<open>distance\<close>, \<open>area\<close> or \<open>convertArea\<close>: none of them is consulted.
\<close>

theorem null_dataset_throws:
  assumes "dataset = Null \<or> dataset = Undefined"
    and "featureEach T dataset = ([], Some e)"
  shows "(\<exists>e'. nearestNeighborAnalysis T dataset options = Inl e') \<and>
         (\<forall>studyArea. resolveStudyArea T dataset options = Inr studyArea \<longrightarrow>
            nearestNeighborAnalysis T dataset options = Inl e) \<and>
         (\<forall>c np d ar cv.
            nearestNeighborAnalysis
              (T\<lparr>centroid := c, nearestPoint := np, distance := d, area := ar, convertArea := cv\<rparr>)
              dataset options =
            nearestNeighborAnalysis T dataset options)"
proof -
  from assms(2) have fs: "collectFeatures T dataset = Inl e"
    by (simp add: collectFeatures_def)
  have fs': "collectFeatures
      (T\<lparr>centroid := c, nearestPoint := np, distance := d, area := ar, convertArea := cv\<rparr>) dataset = Inl e"
    for c np d ar cv
    using assms(2) by (simp add: collectFeatures_def)
  have sa': "resolveStudyArea
      (T\<lparr>centroid := c, nearestPoint := np, distance := d, area := ar, convertArea := cv\<rparr>) dataset options =
      resolveStudyArea T dataset options"
    for c np d ar cv
    by (simp add: resolveStudyArea_def split: option.splits sum.splits)
  have run: "nearestNeighborAnalysis T dataset options =
      (case resolveStudyArea T dataset options of Inl e' \<Rightarrow> Inl e' | Inr studyArea \<Rightarrow> Inl e)"
    by (cases "resolveStudyArea T dataset options") (simp_all add: nearestNeighborAnalysis_def fs)
  have run': "nearestNeighborAnalysis
      (T\<lparr>centroid := c, nearestPoint := np, distance := d, area := ar, convertArea := cv\<rparr>) dataset options =
      (case resolveStudyArea T dataset options of Inl e' \<Rightarrow> Inl e' | Inr studyArea \<Rightarrow> Inl e)"
    for c np d ar cv
    by (cases "resolveStudyArea T dataset options") (simp_all add: nearestNeighborAnalysis_def fs' sa')
  have 1: "\<exists>e'. nearestNeighborAnalysis T dataset options = Inl e'"
    unfolding run by (cases "resolveStudyArea T dataset options") simp_all
  have 2: "\<forall>studyArea. resolveStudyArea T dataset options = Inr studyArea \<longrightarrow>
      nearestNeighborAnalysis T dataset options = Inl e"
    unfolding run by simp
  have 3: "\<forall>c np d ar cv.
      nearestNeighborAnalysis
        (T\<lparr>centroid := c, nearestPoint := np, distance := d, area := ar, convertArea := cv\<rparr>)
        dataset options =
      nearestNeighborAnalysis T dataset options"
    unfolding run run' by simp
  from 1 2 3 show ?thesis
    by (intro conjI)
qed

theorem null_dataset_throws_witness:
  "featureEach planar Null = ([], Some (TypeError ''Cannot read properties of null'')) \<and>
   resolveStudyArea planar Null (Some (studying unitSquare)) = Inr unitSquare \<and>
   nearestNeighborAnalysis planar Null (Some (studying unitSquare)) =
     Inl (TypeError ''Cannot read properties of null'')"
proof -
  have n: "(Null :: (geom, string) geojson) = Null \<or> (Null :: (geom, string) geojson) = Undefined"
    by simp
  have t: "featureEach planar Null = ([], Some (TypeError ''Cannot read properties of null''))"
    by (simp add: planar_defs)
  have sa: "resolveStudyArea planar Null (Some (studying unitSquare)) = Inr unitSquare"
    by (rule studying_studyArea)
  from null_dataset_throws [OF n t, of "Some (studying unitSquare)"] sa
  have "nearestNeighborAnalysis planar Null (Some (studying unitSquare)) =
      Inl (TypeError ''Cannot read properties of null'')"
    by blast
  with t sa show ?thesis
    by (intro conjI)
qed

text \<open>
  C7, as amended. For the empty dataset (the traversal visits no feature and throws
  nothing), whenever the study area is resolved and \<open>area\<close> and \<open>convertArea\<close> return, the
  function returns the study area with \<open>numberOfPoints\<close> 0, with \<open>observedMeanDistance\<close>,
  \<open>nearestNeighborIndex\<close> and \<open>zScore\<close> NaN and with \<open>expectedMeanDistance\<close> NaN or an
  infinity. For a dataset of one feature and a positive converted area \<open>c\<close>, a call that
  returns has the finite \<open>expectedMeanDistance\<close> \<open>1 / (2 * sqrt (1 / c))\<close>; whether it returns
  is up to the nearest-point search over the empty collection of the other features.
\<close>

theorem degenerate_dataset:
  assumes sa: "resolveStudyArea T dataset options = Inr studyArea"
    and ar: "area T studyArea = Inr a"
    and ca: "convertArea T a ''meters'' (resolveUnits options) = Inr convertedArea"
  shows "(featureEach T dataset = ([], None) \<longrightarrow>
           (\<exists>r res.
              nearestNeighborAnalysis T dataset options = Inr r \<and>
              geometry r = geometry studyArea \<and>
              analysisOf r = Some res \<and>
              numberOfPoints res = 0 \<and>
              observedMeanDistance res = NaN \<and>
              \<not> isFinite (expectedMeanDistance res) \<and>
              nearestNeighborIndex res = NaN \<and>
              zScore res = NaN)) \<and>
         (\<forall>f c r.
            collectFeatures T dataset = Inr [f] \<and> convertedArea = Fin c \<and> 0 < c \<and>
            nearestNeighborAnalysis T dataset options = Inr r \<longrightarrow>
            (\<exists>res. analysisOf r = Some res \<and> numberOfPoints res = 1 \<and>
               expectedMeanDistance res = Fin (1 / (2 * sqrt (1 / c))) \<and>
               isFinite (expectedMeanDistance res)))"
proof -
  have empty: "\<exists>r res.
      nearestNeighborAnalysis T dataset options = Inr r \<and>
      geometry r = geometry studyArea \<and>
      analysisOf r = Some res \<and>
      numberOfPoints res = 0 \<and>
      observedMeanDistance res = NaN \<and>
      \<not> isFinite (expectedMeanDistance res) \<and>
      nearestNeighborIndex res = NaN \<and>
      zScore res = NaN"
    if t: "featureEach T dataset = ([], None)"
  proof -
    let ?res = "analysis (resolveUnits options) 0 (meanDistance [] 0) convertedArea"
    let ?r = "studyArea\<lparr>properties :=
        Some ((resolveProperties options)(''nearestNeighborAnalysis'' \<mapsto> Analysis ?res))\<rparr>"
    from t have fs: "collectFeatures T dataset = Inr []"
      by (simp add: collectFeatures_def)
    have ds: "nearestNeighborDistances T (resolveUnits options) [] = Inr []"
      by (simp add: nearestNeighborDistances_def)
    have run: "nearestNeighborAnalysis T dataset options = Inr ?r"
      using nearestNeighborAnalysis_InrI [OF sa fs ds ar ca] by simp
    have g: "geometry ?r = geometry studyArea"
      by simp
    have res: "analysisOf ?r = Some ?res"
      by (rule analysisOf_update)
    have n: "numberOfPoints ?res = 0"
      by (simp add: analysis_fields)
    have e: "\<not> isFinite (expectedMeanDistance ?res)"
      by (simp add: analysis_fields expectedMean_empty_not_finite)
    show ?thesis
      apply (rule exI [of _ ?r])
      apply (rule exI [of _ ?res])
      apply (intro conjI)
             apply (rule run)
            apply (rule g)
           apply (rule res)
          apply (rule n)
         apply (rule empty_fields(1))
        apply (rule e)
       apply (rule empty_fields(2))
      apply (rule empty_fields(3))
      done
  qed
  have single: "\<exists>res. analysisOf r = Some res \<and> numberOfPoints res = 1 \<and>
      expectedMeanDistance res = Fin (1 / (2 * sqrt (1 / c))) \<and>
      isFinite (expectedMeanDistance res)"
    if fs: "collectFeatures T dataset = Inr [f]" and c: "convertedArea = Fin c" "0 < c"
      and run: "nearestNeighborAnalysis T dataset options = Inr r" for f c r
  proof -
    from run obtain studyArea' features distances a' convertedArea' where
      "resolveStudyArea T dataset options = Inr studyArea'"
      "collectFeatures T dataset = Inr features"
      "area T studyArea' = Inr a'"
      "convertArea T a' ''meters'' (resolveUnits options) = Inr convertedArea'"
      "r = studyArea'\<lparr>properties :=
           Some ((resolveProperties options)(''nearestNeighborAnalysis'' \<mapsto>
             Analysis (analysis (resolveUnits options) (length features)
               (meanDistance distances (length features)) convertedArea')))\<rparr>"
      by (blast elim: nearestNeighborAnalysis_InrE)
    with sa ar ca fs c obtain obs where
      res: "analysisOf r = Some (analysis (resolveUnits options) 1 obs (Fin c))"
      by (simp add: analysisOf_update)
    have e: "expectedMeanDistance (analysis (resolveUnits options) 1 obs (Fin c)) =
        Fin (1 / (2 * sqrt (1 / c)))"
      using c(2) by (simp add: analysis_fields populationDensity_positive expectedMean_positive)
    have n: "numberOfPoints (analysis (resolveUnits options) 1 obs (Fin c)) = 1"
      by (simp add: analysis_fields)
    have fin: "isFinite (expectedMeanDistance (analysis (resolveUnits options) 1 obs (Fin c)))"
      unfolding e by simp
    from res n e fin show ?thesis
      by (intro exI conjI)
  qed
  from empty single show ?thesis
    by blast
qed

theorem degenerate_dataset_witness:
  "featureEach planar noPoints = ([], None) \<and>
   nearestNeighborAnalysis planar noPoints (Some (studying unitSquare)) =
     Inr (unitSquare\<lparr>properties :=
       Some (Map.empty(''nearestNeighborAnalysis'' \<mapsto> Analysis emptyAnalysis))\<rparr>) \<and>
   observedMeanDistance emptyAnalysis = NaN \<and>
   \<not> isFinite (expectedMeanDistance emptyAnalysis) \<and>
   nearestNeighborIndex emptyAnalysis = NaN \<and>
   zScore emptyAnalysis = NaN"
proof -
  let ?r = "unitSquare\<lparr>properties :=
       Some (Map.empty(''nearestNeighborAnalysis'' \<mapsto> Analysis emptyAnalysis))\<rparr>"
  have ca: "convertArea planar (Fin 1) ''meters'' (resolveUnits (Some (studying unitSquare))) = Inr (Fin 1)"
    unfolding studying_units by (rule meters_area)
  have t: "featureEach planar noPoints = ([], None)"
    by (simp add: planar_defs noPoints_def)
  from degenerate_dataset [OF studying_studyArea unitSquare_area(1) ca, of noPoints] t
  obtain r res where
    run: "nearestNeighborAnalysis planar noPoints (Some (studying unitSquare)) = Inr r" and
    res: "analysisOf r = Some res" and
    o: "observedMeanDistance res = NaN" and
    e: "\<not> isFinite (expectedMeanDistance res)" and
    i: "nearestNeighborIndex res = NaN" and
    z: "zScore res = NaN"
    by blast
  from run have r: "r = ?r"
    by (simp add: planar_empty_run)
  have "analysisOf ?r = Some emptyAnalysis"
    by (rule analysisOf_update)
  with res r have "res = emptyAnalysis"
    by simp
  with o e i z t planar_empty_run show ?thesis
    by simp
qed

theorem degenerate_dataset_counterexample:
  "nearestNeighborAnalysis planar onePoint (Some (studying unitSquare)) =
     Inl (Error ''geojson is required'') \<and>
   nearestNeighborAnalysis selfNearest onePoint (Some (studying unitSquare)) =
     Inr (unitSquare\<lparr>properties :=
       Some (Map.empty(''nearestNeighborAnalysis'' \<mapsto> Analysis singleAnalysis))\<rparr>) \<and>
   expectedMeanDistance singleAnalysis = Fin (1 / 2) \<and>
   isFinite (expectedMeanDistance singleAnalysis)"
proof -
  have e: "expectedMeanDistance singleAnalysis = Fin (1 / 2)"
    by (simp add: singleAnalysis_def)
  have f: "isFinite (expectedMeanDistance singleAnalysis)"
    unfolding e by simp
  from planar_single_run selfNearest_single_run e f show ?thesis
    by (intro conjI)
qed

section \<open>The size of the study area\<close>

text \<open>
  C8, as amended. In the arithmetic of binary64, for the same dataset (with at least one
  feature) and the same unit, a run on a study area whose converted area is positive and
  not larger has a population density that is not smaller and an \<open>expectedMeanDistance\<close>
  that is not larger. The change need not be strict: two study areas of different area
  can give the same population density and the same \<open>expectedMeanDistance\<close>.
\<close>

theorem expectedMeanDistance_not_larger:
  assumes small: "nearestNeighborAnalysisR binary64 T dataset options1 = Inr r1"
    and large: "nearestNeighborAnalysisR binary64 T dataset options2 = Inr r2"
    and unit: "resolveUnits options1 = resolveUnits options2"
    and sa1: "resolveStudyArea T dataset options1 = Inr studyArea1"
    and sa2: "resolveStudyArea T dataset options2 = Inr studyArea2"
    and a1: "area T studyArea1 = Inr a1"
    and a2: "area T studyArea2 = Inr a2"
    and c1: "convertArea T a1 ''meters'' (resolveUnits options1) = Inr (Fin c1)"
    and c2: "convertArea T a2 ''meters'' (resolveUnits options2) = Inr (Fin c2)"
    and less: "0 < c1" "c1 \<le> c2"
    and fs: "collectFeatures T dataset = Inr features"
    and n: "features \<noteq> []"
  shows "\<exists>res1 res2.
           analysisOf r1 = Some res1 \<and> analysisOf r2 = Some res2 \<and>
           expectedMeanDistance res1 =
             expectedMeanR binary64 (populationDensityR binary64 (length features) (Fin c1)) \<and>
           expectedMeanDistance res2 =
             expectedMeanR binary64 (populationDensityR binary64 (length features) (Fin c2)) \<and>
           js_le (populationDensityR binary64 (length features) (Fin c2))
                 (populationDensityR binary64 (length features) (Fin c1)) \<and>
           js_le (expectedMeanDistance res1) (expectedMeanDistance res2)"
proof -
  let ?n = "length features"
  from n have n0: "0 < ?n"
    by simp
  from small obtain studyArea features' distances a convertedArea where
    "resolveStudyArea T dataset options1 = Inr studyArea"
    "collectFeatures T dataset = Inr features'"
    "area T studyArea = Inr a"
    "convertArea T a ''meters'' (resolveUnits options1) = Inr convertedArea"
    "r1 = studyArea\<lparr>properties :=
           Some ((resolveProperties options1)(''nearestNeighborAnalysis'' \<mapsto>
             Analysis (analysisR binary64 (resolveUnits options1) (length features')
               (meanDistanceR binary64 distances (length features')) convertedArea)))\<rparr>"
    by (blast elim: nearestNeighborAnalysisR_InrE)
  with sa1 fs a1 c1 obtain obs1 where
    r1: "analysisOf r1 = Some (analysisR binary64 (resolveUnits options1) ?n obs1 (Fin c1))"
    by (simp add: analysisOf_update)
  from large obtain studyArea features' distances a convertedArea where
    "resolveStudyArea T dataset options2 = Inr studyArea"
    "collectFeatures T dataset = Inr features'"
    "area T studyArea = Inr a"
    "convertArea T a ''meters'' (resolveUnits options2) = Inr convertedArea"
    "r2 = studyArea\<lparr>properties :=
           Some ((resolveProperties options2)(''nearestNeighborAnalysis'' \<mapsto>
             Analysis (analysisR binary64 (resolveUnits options2) (length features')
               (meanDistanceR binary64 distances (length features')) convertedArea)))\<rparr>"
    by (blast elim: nearestNeighborAnalysisR_InrE)
  with sa2 fs a2 c2 obtain obs2 where
    r2: "analysisOf r2 = Some (analysisR binary64 (resolveUnits options2) ?n obs2 (Fin c2))"
    by (simp add: analysisOf_update)
  let ?d1 = "populationDensityR binary64 ?n (Fin c1)"
  let ?d2 = "populationDensityR binary64 ?n (Fin c2)"
  from populationDensityR_antimono [OF n0 less]
  have d: "js_le (Fin 0) ?d2" "?d2 \<noteq> NegZero" "js_le (Fin 0) ?d1" "?d1 \<noteq> NegZero" "js_le ?d2 ?d1"
    by simp_all
  from d have e: "js_le (expectedMeanR binary64 ?d1) (expectedMeanR binary64 ?d2)"
    by (rule expectedMeanR_antimono)
  have f1: "expectedMeanDistance (analysisR binary64 (resolveUnits options1) ?n obs1 (Fin c1)) =
      expectedMeanR binary64 ?d1"
    by (rule analysisR_expected)
  have f2: "expectedMeanDistance (analysisR binary64 (resolveUnits options2) ?n obs2 (Fin c2)) =
      expectedMeanR binary64 ?d2"
    by (rule analysisR_expected)
  have exp: "js_le (expectedMeanDistance (analysisR binary64 (resolveUnits options1) ?n obs1 (Fin c1)))
      (expectedMeanDistance (analysisR binary64 (resolveUnits options2) ?n obs2 (Fin c2)))"
    unfolding f1 f2 by (rule e)
  show ?thesis
    apply (rule exI [of _ "analysisR binary64 (resolveUnits options1) ?n obs1 (Fin c1)"])
    apply (rule exI [of _ "analysisR binary64 (resolveUnits options2) ?n obs2 (Fin c2)"])
    apply (intro conjI)
         apply (rule r1)
        apply (rule r2)
       apply (rule f1)
      apply (rule f2)
     apply (rule d(5))
    apply (rule exp)
    done
qed

theorem expectedMeanDistance_not_larger_witness:
  "\<exists>r1 r2 res1 res2.
     nearestNeighborAnalysisR binary64 planar square (Some (studying unitSquare)) = Inr r1 \<and>
     nearestNeighborAnalysisR binary64 planar square (Some (studying wideSquare)) = Inr r2 \<and>
     area planar unitSquare = Inr (Fin 1) \<and>
     area planar wideSquare = Inr (Fin 4) \<and>
     convertArea planar (Fin 1) ''meters'' ''meters'' = Inr (Fin 1) \<and>
     convertArea planar (Fin 4) ''meters'' ''meters'' = Inr (Fin 4) \<and>
     analysisOf r1 = Some res1 \<and>
     analysisOf r2 = Some res2 \<and>
     js_le (populationDensityR binary64 4 (Fin 4)) (populationDensityR binary64 4 (Fin 1)) \<and>
     js_le (expectedMeanDistance res1) (expectedMeanDistance res2)"
proof -
  let ?o1 = "Some (studying unitSquare)"
  let ?o2 = "Some (studying wideSquare)"
  have a1: "area planar unitSquare = Inr (Fin 1)"
    by (simp add: planar_defs unitSquare_def)
  have a2: "area planar wideSquare = Inr (Fin 4)"
    by (simp add: planar_defs wideSquare_def)
  have k1: "convertArea planar (Fin 1) ''meters'' ''meters'' = Inr (Fin 1)"
    and k2: "convertArea planar (Fin 4) ''meters'' ''meters'' = Inr (Fin 4)"
    by (simp_all add: planar_defs)
  obtain r1 where run1: "nearestNeighborAnalysisR binary64 planar square ?o1 = Inr r1"
    using studying_runR [OF a1] by simp
  obtain r2 where run2: "nearestNeighborAnalysisR binary64 planar square ?o2 = Inr r2"
    using studying_runR [OF a2] by simp
  have unit: "resolveUnits ?o1 = resolveUnits ?o2"
    by (simp add: studying_units)
  have c1: "convertArea planar (Fin 1) ''meters'' (resolveUnits ?o1) = Inr (Fin 1)"
    and c2: "convertArea planar (Fin 4) ''meters'' (resolveUnits ?o2) = Inr (Fin 4)"
    unfolding studying_units by (rule k1, rule k2)
  have n: "[pt 0 0, pt 1 0, pt 1 1, pt 0 1] \<noteq> []"
    by simp
  have less: "(0::real) < 1" "(1::real) \<le> 4"
    by simp_all
  from expectedMeanDistance_not_larger
    [OF run1 run2 unit studying_studyArea studying_studyArea a1 a2 c1 c2 less square_features n]
  obtain res1 res2 where
    r1: "analysisOf r1 = Some res1" and r2: "analysisOf r2 = Some res2" and
    dens: "js_le (populationDensityR binary64 (length [pt 0 0, pt 1 0, pt 1 1, pt 0 1]) (Fin 4))
                 (populationDensityR binary64 (length [pt 0 0, pt 1 0, pt 1 1, pt 0 1]) (Fin 1))" and
    exp: "js_le (expectedMeanDistance res1) (expectedMeanDistance res2)"
    by (elim exE conjE)
  have len: "length [pt 0 0, pt 1 0, pt 1 1, pt 0 1] = 4"
    by simp
  from dens have dens': "js_le (populationDensityR binary64 4 (Fin 4)) (populationDensityR binary64 4 (Fin 1))"
    unfolding len .
  show ?thesis
    apply (rule exI [of _ r1])
    apply (rule exI [of _ r2])
    apply (rule exI [of _ res1])
    apply (rule exI [of _ res2])
    apply (intro conjI)
             apply (rule run1)
            apply (rule run2)
           apply (rule a1)
          apply (rule a2)
         apply (rule k1)
        apply (rule k2)
       apply (rule r1)
      apply (rule r2)
     apply (rule dens')
    apply (rule exp)
    done
qed

theorem expectedMeanDistance_not_larger_counterexample:
  "nearestNeighborAnalysisR binary64 planar square (Some (studying sevenWide)) =
     Inr (sevenWide\<lparr>properties :=
       Some (Map.empty(''nearestNeighborAnalysis'' \<mapsto>
         Analysis (analysisR binary64 ''meters'' 4
           (meanDistanceR binary64 [Fin 1, Fin 1, Fin 1, Fin 1] 4) (Fin 7))))\<rparr>) \<and>
   nearestNeighborAnalysisR binary64 planar square (Some (studying sevenWider)) =
     Inr (sevenWider\<lparr>properties :=
       Some (Map.empty(''nearestNeighborAnalysis'' \<mapsto>
         Analysis (analysisR binary64 ''meters'' 4
           (meanDistanceR binary64 [Fin 1, Fin 1, Fin 1, Fin 1] 4) (Fin (7 + 1 / 2 ^ 50)))))\<rparr>) \<and>
   area planar sevenWide = Inr (Fin 7) \<and>
   area planar sevenWider = Inr (Fin (7 + 1 / 2 ^ 50)) \<and>
   (7::real) < 7 + 1 / 2 ^ 50 \<and>
   populationDensityR binary64 4 (Fin 7) = populationDensityR binary64 4 (Fin (7 + 1 / 2 ^ 50)) \<and>
   expectedMeanDistance (analysisR binary64 ''meters'' 4
       (meanDistanceR binary64 [Fin 1, Fin 1, Fin 1, Fin 1] 4) (Fin 7)) =
     expectedMeanDistance (analysisR binary64 ''meters'' 4
       (meanDistanceR binary64 [Fin 1, Fin 1, Fin 1, Fin 1] 4) (Fin (7 + 1 / 2 ^ 50))) \<and>
   \<not> js_lt
     (expectedMeanDistance (analysisR binary64 ''meters'' 4
       (meanDistanceR binary64 [Fin 1, Fin 1, Fin 1, Fin 1] 4) (Fin 7)))
     (expectedMeanDistance (analysisR binary64 ''meters'' 4
       (meanDistanceR binary64 [Fin 1, Fin 1, Fin 1, Fin 1] 4) (Fin (7 + 1 / 2 ^ 50))))"
proof -
  have a1: "area planar sevenWide = Inr (Fin 7)"
    by (simp add: planar_defs sevenWide_def)
  have a2: "area planar sevenWider = Inr (Fin (7 + 1 / 2 ^ 50))"
    by (simp add: planar_defs sevenWider_def)
  have len: "length [pt 0 0, pt 1 0, pt 1 1, pt 0 1] = 4"
    by simp
  have run1: "nearestNeighborAnalysisR binary64 planar square (Some (studying sevenWide)) =
     Inr (sevenWide\<lparr>properties :=
       Some (Map.empty(''nearestNeighborAnalysis'' \<mapsto>
         Analysis (analysisR binary64 ''meters'' 4
           (meanDistanceR binary64 [Fin 1, Fin 1, Fin 1, Fin 1] 4) (Fin 7))))\<rparr>)"
    using studying_runR [OF a1, of binary64] unfolding len by simp
  have run2: "nearestNeighborAnalysisR binary64 planar square (Some (studying sevenWider)) =
     Inr (sevenWider\<lparr>properties :=
       Some (Map.empty(''nearestNeighborAnalysis'' \<mapsto>
         Analysis (analysisR binary64 ''meters'' 4
           (meanDistanceR binary64 [Fin 1, Fin 1, Fin 1, Fin 1] 4) (Fin (7 + 1 / 2 ^ 50)))))\<rparr>)"
    using studying_runR [OF a2, of binary64] unfolding len by simp
  have less: "(7::real) < 7 + 1 / 2 ^ 50"
    by simp
  have d: "populationDensityR binary64 4 (Fin 7) = populationDensityR binary64 4 (Fin (7 + 1 / 2 ^ 50))"
    unfolding density_sevenWide density_sevenWider ..
  have e: "expectedMeanDistance (analysisR binary64 ''meters'' 4
       (meanDistanceR binary64 [Fin 1, Fin 1, Fin 1, Fin 1] 4) (Fin 7)) =
     expectedMeanDistance (analysisR binary64 ''meters'' 4
       (meanDistanceR binary64 [Fin 1, Fin 1, Fin 1, Fin 1] 4) (Fin (7 + 1 / 2 ^ 50)))"
    unfolding analysisR_expected d ..
  have l: "\<not> js_lt
     (expectedMeanDistance (analysisR binary64 ''meters'' 4
       (meanDistanceR binary64 [Fin 1, Fin 1, Fin 1, Fin 1] 4) (Fin 7)))
     (expectedMeanDistance (analysisR binary64 ''meters'' 4
       (meanDistanceR binary64 [Fin 1, Fin 1, Fin 1, Fin 1] 4) (Fin (7 + 1 / 2 ^ 50))))"
    unfolding e by (rule js_lt_irrefl)
  from run1 run2 a1 a2 less d e l show ?thesis
    by (intro conjI)
qed

section \<open>The returned feature\<close>

text \<open>
  C9. When \<open>options.studyArea\<close> is supplied and the run returns, the returned feature is
  that feature with its geometry unchanged: it differs from the supplied one in its
  property bag only.
\<close>

theorem studyArea_geometry_kept:
  assumes "nearestNeighborAnalysis T dataset (Some opts) = Inr r"
    and "opt_studyArea opts = Some studyArea"
  shows "geometry r = geometry studyArea \<and> (\<exists>props. r = studyArea\<lparr>properties := Some props\<rparr>)"
proof -
  from assms(1) obtain studyArea' features distances convertedArea where
    sa: "resolveStudyArea T dataset (Some opts) = Inr studyArea'" and
    fs: "collectFeatures T dataset = Inr features" and
    r: "r = studyArea'\<lparr>properties :=
           Some ((resolveProperties (Some opts))(''nearestNeighborAnalysis'' \<mapsto>
             Analysis (analysis (resolveUnits (Some opts)) (length features)
               (meanDistance distances (length features)) convertedArea)))\<rparr>"
    by (blast elim: nearestNeighborAnalysis_InrE)
  from sa assms(2) have eq: "studyArea' = studyArea"
    by (simp add: resolveStudyArea_def resolveOptions_def)
  have p: "r = studyArea\<lparr>properties :=
           Some ((resolveProperties (Some opts))(''nearestNeighborAnalysis'' \<mapsto>
             Analysis (analysis (resolveUnits (Some opts)) (length features)
               (meanDistance distances (length features)) convertedArea)))\<rparr>"
    unfolding r eq ..
  have g: "geometry r = geometry studyArea"
    unfolding p by simp
  have "\<exists>props. r = studyArea\<lparr>properties := Some props\<rparr>"
    by (rule exI, rule p)
  with g show ?thesis
    by (rule conjI)
qed

theorem studyArea_geometry_kept_witness:
  "nearestNeighborAnalysis planar square (Some (studying unitSquare)) =
     Inr (unitSquare\<lparr>properties := Some [''nearestNeighborAnalysis'' \<mapsto> Analysis squareAnalysis]\<rparr>) \<and>
   opt_studyArea (studying unitSquare) = Some unitSquare \<and>
   geometry (unitSquare\<lparr>properties := Some [''nearestNeighborAnalysis'' \<mapsto> Analysis squareAnalysis]\<rparr>) =
     geometry unitSquare"
proof -
  have run: "nearestNeighborAnalysis planar square (Some (studying unitSquare)) =
     Inr (unitSquare\<lparr>properties := Some [''nearestNeighborAnalysis'' \<mapsto> Analysis squareAnalysis]\<rparr>)"
    using supplied_run [of "studying unitSquare" unitSquare]
    by (simp add: studying_def unitSquare_def resolveProperties_def resolveOptions_def)
  have sa: "opt_studyArea (studying unitSquare) = Some unitSquare"
    by (simp add: studying_def)
  from studyArea_geometry_kept [OF run sa] run sa show ?thesis
    by blast
qed

text \<open>
  C10. When \<open>options.studyArea\<close> is supplied and the run returns, the property bag of the
  returned feature is \<open>options.properties\<close> (the empty bag when absent) with the entry
  \<open>nearestNeighborAnalysis\<close> set to the result object. The original bag of the study area
  is replaced, not merged into: a key of the original bag that is not in
  \<open>options.properties\<close> and is not the added \<open>nearestNeighborAnalysis\<close> is absent from the
  returned bag.
\<close>

theorem properties_replaced:
  assumes "nearestNeighborAnalysis T dataset (Some opts) = Inr r"
    and "opt_studyArea opts = Some studyArea"
  shows "\<exists>res props.
           analysisOf r = Some res \<and>
           properties r = Some props \<and>
           props = (case opt_properties opts of Some given \<Rightarrow> given | None \<Rightarrow> Map.empty)
                     (''nearestNeighborAnalysis'' \<mapsto> Analysis res) \<and>
           (\<forall>original k. properties studyArea = Some original \<and> k \<in> dom original \<and>
                k \<notin> dom (case opt_properties opts of Some given \<Rightarrow> given | None \<Rightarrow> Map.empty) \<and>
                k \<noteq> ''nearestNeighborAnalysis'' \<longrightarrow> k \<notin> dom props)"
proof -
  from assms(1) obtain studyArea' features distances convertedArea where
    fs: "collectFeatures T dataset = Inr features" and
    r: "r = studyArea'\<lparr>properties :=
           Some ((resolveProperties (Some opts))(''nearestNeighborAnalysis'' \<mapsto>
             Analysis (analysis (resolveUnits (Some opts)) (length features)
               (meanDistance distances (length features)) convertedArea)))\<rparr>"
    by (blast elim: nearestNeighborAnalysis_InrE)
  let ?res = "analysis (resolveUnits (Some opts)) (length features)
                (meanDistance distances (length features)) convertedArea"
  let ?given = "case opt_properties opts of Some given \<Rightarrow> given | None \<Rightarrow> Map.empty"
  have g: "resolveProperties (Some opts) = ?given"
    by (simp add: resolveProperties_def resolveOptions_def)
  have res: "analysisOf r = Some ?res"
    unfolding r by (rule analysisOf_update)
  have p: "properties r = Some (?given(''nearestNeighborAnalysis'' \<mapsto> Analysis ?res))"
    unfolding r g by simp
  have k: "k \<notin> dom (?given(''nearestNeighborAnalysis'' \<mapsto> Analysis ?res))"
    if "k \<notin> dom ?given" "k \<noteq> ''nearestNeighborAnalysis''" for k
    using that by simp
  from res p k show ?thesis
    by blast
qed

theorem properties_replaced_witness:
  "nearestNeighborAnalysis planar square (Some (labelled staleSquare)) =
     Inr (staleSquare\<lparr>properties :=
       Some (fooBar(''nearestNeighborAnalysis'' \<mapsto> Analysis squareAnalysis))\<rparr>) \<and>
   opt_studyArea (labelled staleSquare) = Some staleSquare \<and>
   opt_properties (labelled staleSquare) = Some fooBar \<and>
   properties staleSquare = Some staleBag \<and>
   ''name'' \<in> dom staleBag \<and>
   ''name'' \<notin> dom fooBar \<and>
   ''name'' \<notin> dom (fooBar(''nearestNeighborAnalysis'' \<mapsto> Analysis squareAnalysis))"
proof -
  let ?returned = "fooBar(''nearestNeighborAnalysis'' \<mapsto> Analysis squareAnalysis)"
  have rp: "resolveProperties (Some (labelled staleSquare)) = fooBar"
    by (simp add: labelled_def resolveProperties_def resolveOptions_def)
  have run: "nearestNeighborAnalysis planar square (Some (labelled staleSquare)) =
     Inr (staleSquare\<lparr>properties := Some ?returned\<rparr>)"
    using supplied_run [of "labelled staleSquare" staleSquare]
    unfolding rp by (simp add: labelled_def staleSquare_def)
  have sa: "opt_studyArea (labelled staleSquare) = Some staleSquare"
    and op: "opt_properties (labelled staleSquare) = Some fooBar"
    by (simp_all add: labelled_def)
  from properties_replaced [OF run sa] obtain props where
    p: "properties (staleSquare\<lparr>properties := Some ?returned\<rparr>) = Some props"
    and k: "\<forall>original k. properties staleSquare = Some original \<and> k \<in> dom original \<and>
                k \<notin> dom (case opt_properties (labelled staleSquare) of Some given \<Rightarrow> given | None \<Rightarrow> Map.empty) \<and>
                k \<noteq> ''nearestNeighborAnalysis'' \<longrightarrow> k \<notin> dom props"
    by (elim exE conjE)
  from p have props: "props = ?returned"
    by simp
  have o: "properties staleSquare = Some staleBag"
    by (simp add: staleSquare_def)
  have i: "''name'' \<in> dom staleBag"
    by (simp add: staleBag_def)
  have j: "''name'' \<notin> dom fooBar"
    by (simp add: fooBar_def)
  have n: "''name'' \<noteq> ''nearestNeighborAnalysis''"
    by simp
  from k [rule_format, of staleBag "''name''"] o i j n have "''name'' \<notin> dom props"
    unfolding op by simp
  with props have "''name'' \<notin> dom ?returned"
    by simp
  with run sa op o i j show ?thesis
    by (intro conjI)
qed

end
